theory Spec2Isabelle
  imports Complex_Main "HOL-Library.Multiset"
begin

section \<open>Python values and exceptions\<close>

text \<open>
  A Python \<^verbatim>\<open>float\<close>: a finite double, an infinity or a NaN. Which reals are doubles
  is left open; no operation below depends on it.
\<close>

datatype pyfloat = Finite real | PosInf | NegInf | NaN

text \<open>The comparisons \<^verbatim>\<open><\<close> and \<^verbatim>\<open><=\<close> of two floats: both are false when either side
  is a NaN.\<close>

fun float_lt :: "pyfloat \<Rightarrow> pyfloat \<Rightarrow> bool" where
  "float_lt (Finite x) (Finite y) = (x < y)"
| "float_lt (Finite x) PosInf = True"
| "float_lt NegInf (Finite y) = True"
| "float_lt NegInf PosInf = True"
| "float_lt _ _ = False"

definition float_le :: "pyfloat \<Rightarrow> pyfloat \<Rightarrow> bool" where
  "float_le a b = (a \<noteq> NaN \<and> b \<noteq> NaN \<and> \<not> float_lt b a)"

text \<open>
  A decoded JSON document, as \<^verbatim>\<open>json.loads\<close> hands it to the program: \<^verbatim>\<open>None\<close>,
  a bool, an \<^verbatim>\<open>int\<close> of any size, a \<^verbatim>\<open>float\<close> (the decoder also yields NaN and the
  infinities), a \<^verbatim>\<open>str\<close>, a \<^verbatim>\<open>list\<close> or a \<^verbatim>\<open>dict\<close> with string keys (an association
  list; a lookup takes the first binding of a key).
\<close>

datatype json =
    JNull
  | JBool bool
  | JInt int
  | JFloat pyfloat
  | JStr string
  | JArr "json list"
  | JObj "(string \<times> json) list"

text \<open>The payload of an \<^verbatim>\<open>HTTPException\<close>: its \<^verbatim>\<open>detail\<close> text. The second text is
  formatted from a raw element, which is kept as a value.\<close>

datatype detail =
    No_locations_generated
  | Invalid_location_data json
  | Trip_not_found

text \<open>
  The exception classes that the code names or that its operations raise. An exception
  raised by the completion client is identified with the class of the \<^verbatim>\<open>except\<close>
  clause that names it or a superclass of it; \<open>OtherException\<close> stands for one that no
  clause names.
\<close>

datatype py_exn =
    RateLimitError
  | APIConnectionError
  | APIError
  | ChatGPTError
  | TypeError
  | KeyError
  | ValueError
  | OverflowError
  | ZeroDivisionError
  | UnboundLocalError
  | ValidationError
  | OtherException
  | HTTPException nat detail

fun try_bind :: "py_exn + 'a \<Rightarrow> ('a \<Rightarrow> py_exn + 'b) \<Rightarrow> py_exn + 'b" where
  "try_bind (Inl e) f = Inl e"
| "try_bind (Inr x) f = f x"

section \<open>The chat client (openai\_client.py)\<close>

record message =
  role :: string
  content :: string

text \<open>The two system prompts of trip\_prompts.py are configuration; they are taken as given.\<close>

record prompts =
  TRIP_PROMPT_SEVERAL_PLACES :: string
  TRIP_PROMPT_SINGLE_PLACE :: string

datatype TripTypeEnum = several_places | by_place

fun enum_value :: "TripTypeEnum \<Rightarrow> string" where
  "enum_value several_places = ''several_places''"
| "enum_value by_place = ''by_place''"

text \<open>The dictionary \<^verbatim>\<open>TRIP_TYPE\<close>; its keys are the members of the string enum.\<close>

definition TRIP_TYPE :: "prompts \<Rightarrow> string \<Rightarrow> string option" where
  "TRIP_TYPE ps =
     [enum_value several_places \<mapsto> TRIP_PROMPT_SEVERAL_PLACES ps,
      enum_value by_place \<mapsto> TRIP_PROMPT_SINGLE_PLACE ps]"

text \<open>The fields of \<^verbatim>\<open>OpenAIChatClientBase\<close>. The network client \<^verbatim>\<open>self.client\<close> is not
  a field here: what it answers is an argument of the operations that call it.\<close>

record client =
  model :: string
  system_prompt :: string
  messages :: "message list"

definition add_message :: "string \<Rightarrow> string \<Rightarrow> client \<Rightarrow> client" where
  "add_message r c self = self\<lparr>messages := messages self @ [\<lparr>role = r, content = c\<rparr>]\<rparr>"

definition OpenAIChatClientBase :: "prompts \<Rightarrow> string \<Rightarrow> string \<Rightarrow> client" where
  "OpenAIChatClientBase ps mdl trip_type =
     \<lparr>model = mdl,
      system_prompt = (case TRIP_TYPE ps trip_type of
                         Some p \<Rightarrow> p
                       | None \<Rightarrow> TRIP_PROMPT_SEVERAL_PLACES ps),
      messages = []\<rparr>"

definition OpenAIChatClientTrip :: "prompts \<Rightarrow> string \<Rightarrow> string \<Rightarrow> client" where
  "OpenAIChatClientTrip ps mdl trip_type =
     (let self = OpenAIChatClientBase ps mdl trip_type
      in add_message ''system'' (system_prompt self) self)"

subsection \<open>The bounded-retry call\<close>

text \<open>What one call of \<^verbatim>\<open>chat.completions.create\<close> does: it returns the text of the
  first choice or raises.\<close>

datatype api_outcome = Completion string | Raises py_exn

record completion_request =
  req_model :: string
  req_messages :: "message list"
  response_format :: string
  temperature :: real

text \<open>What the call does to the outside, in order: the request of attempt number
  \<open>attempt\<close> (counted from 0, as the loop variable), and \<^verbatim>\<open>asyncio.sleep\<close>.\<close>

datatype event = Create nat completion_request | Sleep nat

definition max_retries :: nat where "max_retries = 4"
definition backoff_base :: nat where "backoff_base = 1"
definition max_wait :: nat where "max_wait = 8"

fun emit :: "event list \<Rightarrow> event list \<times> 'a \<Rightarrow> event list \<times> 'a" where
  "emit es (es', r) = (es @ es', r)"

text \<open>\<^verbatim>\<open>if num_places and len(result) < num_places\<close>: \<^verbatim>\<open>None\<close> and 0 are false.\<close>

definition too_short :: "int option \<Rightarrow> string \<Rightarrow> bool" where
  "too_short num_places result =
     (case num_places of
        None \<Rightarrow> False
      | Some n \<Rightarrow> n \<noteq> 0 \<and> int (length result) < n)"

text \<open>
  The members of an \<^verbatim>\<open>except\<close> clause, as the names imported at the top of the file
  denote them. \<^verbatim>\<open>RateLimitError\<close>, \<^verbatim>\<open>APIConnectionError\<close> and \<^verbatim>\<open>APIError\<close> are exception
  classes of the client library. \<^verbatim>\<open>Timeout\<close>, imported from the same package beside
  \<^verbatim>\<open>AsyncOpenAI\<close>, is the timeout configuration class of the library's HTTP transport:
  it is a class, but not an exception class.
\<close>

datatype clause_member = Exception_class py_exn | Other_class

definition Timeout :: clause_member where
  "Timeout = Other_class"

definition first_except_clause :: "clause_member list" where
  "first_except_clause =
     [Exception_class RateLimitError, Timeout, Exception_class APIConnectionError,
      Exception_class APIError]"

definition second_except_clause :: "clause_member list" where
  "second_except_clause = [Exception_class ChatGPTError]"

text \<open>
  Matching a raised exception against an \<^verbatim>\<open>except\<close> clause. Python first checks that
  every member of the clause is an exception class; when one is not, the match itself
  raises a \<^verbatim>\<open>TypeError\<close>, whatever was raised, and that error leaves the \<^verbatim>\<open>try\<close>
  statement: the clauses after it are not tried.
\<close>

definition exc_match :: "clause_member list \<Rightarrow> py_exn \<Rightarrow> py_exn + bool" where
  "exc_match clause e =
     (if Other_class \<in> set clause then Inl TypeError
      else Inr (Exception_class e \<in> set clause))"

text \<open>
  How the \<^verbatim>\<open>try\<close> suite of one attempt ends, after its request: it returns the text,
  it falls through to the next attempt after a sleep, or it raises. The local
  \<^verbatim>\<open>wait_time\<close> is \<open>None\<close> until an \<^verbatim>\<open>except\<close> suite assigns it; reading it before that
  raises \<^verbatim>\<open>UnboundLocalError\<close>, inside the \<^verbatim>\<open>try\<close> suite.
\<close>

datatype suite_end = Returns string | Falls_through | Raised py_exn

definition try_suite :: "api_outcome \<Rightarrow> int option \<Rightarrow> nat option \<Rightarrow> event list \<times> suite_end" where
  "try_suite outcome num_places wait_time =
     (case outcome of
        Raises e \<Rightarrow> ([], Raised e)
      | Completion result \<Rightarrow>
          if too_short num_places result then
            (case wait_time of
               None \<Rightarrow> ([], Raised UnboundLocalError)
             | Some w \<Rightarrow> ([Sleep w], Falls_through))
          else ([], Returns result))"

text \<open>
  The \<^verbatim>\<open>for attempt in range(max_retries)\<close> loop, over the attempts still to make. An
  exception of the \<^verbatim>\<open>try\<close> suite is matched against the two \<^verbatim>\<open>except\<close> clauses in
  order. The result is the text, \<^verbatim>\<open>None\<close>, or the exception that leaves the function.
\<close>

fun retry_loop ::
  "(nat \<Rightarrow> api_outcome) \<Rightarrow> completion_request \<Rightarrow> int option \<Rightarrow> nat option \<Rightarrow> nat list
     \<Rightarrow> event list \<times> (py_exn + string option)" where
  "retry_loop api req num_places wait_time [] = ([], Inr None)"
| "retry_loop api req num_places wait_time (attempt # rest) =
     emit [Create attempt req]
       (case try_suite (api attempt) num_places wait_time of
          (evs, Returns result) \<Rightarrow> (evs, Inr (Some result))
        | (evs, Falls_through) \<Rightarrow> emit evs (retry_loop api req num_places wait_time rest)
        | (evs, Raised e) \<Rightarrow>
            (case exc_match first_except_clause e of
               Inl err \<Rightarrow> (evs, Inl err)
             | Inr True \<Rightarrow>
                 (let w = min (backoff_base * 2 ^ attempt) max_wait
                  in emit (evs @ [Sleep w]) (retry_loop api req num_places (Some w) rest))
             | Inr False \<Rightarrow>
                 (case exc_match second_except_clause e of
                    Inl err \<Rightarrow> (evs, Inl err)
                  | Inr True \<Rightarrow> (evs, Inr None)
                  | Inr False \<Rightarrow> (evs, Inl e))))"

definition get_completions_create_response ::
  "client \<Rightarrow> (nat \<Rightarrow> api_outcome) \<Rightarrow> int option \<Rightarrow> event list \<times> (py_exn + string option)" where
  "get_completions_create_response self api num_places =
     retry_loop api
       \<lparr>req_model = model self, req_messages = messages self,
        response_format = ''json_object'', temperature = 7 / 10\<rparr>
       num_places None [0..<max_retries]"

subsection \<open>Formatting integers in f-strings\<close>

fun str_nat :: "nat \<Rightarrow> string" where
  "str_nat n =
     (if n < 10 then [char_of (48 + n)]
      else str_nat (n div 10) @ [char_of (48 + n mod 10)])"

definition str_int :: "int \<Rightarrow> string" where
  "str_int i = (if i < 0 then CHR ''-'' # str_nat (nat (- i)) else str_nat (nat i))"

subsection \<open>Parsing the response\<close>

fun is_dict :: "json \<Rightarrow> bool" where
  "is_dict (JObj kvs) = True"
| "is_dict _ = False"

text \<open>\<^verbatim>\<open>key in d\<close> and \<^verbatim>\<open>d[key]\<close> on a value known to be a dict.\<close>

fun has_key :: "string \<Rightarrow> json \<Rightarrow> bool" where
  "has_key k (JObj kvs) = (map_of kvs k \<noteq> None)"
| "has_key k _ = False"

fun get_item :: "json \<Rightarrow> string \<Rightarrow> json" where
  "get_item (JObj kvs) k = (case map_of kvs k of Some v \<Rightarrow> v | None \<Rightarrow> JNull)"
| "get_item v k = v"

text \<open>\<^verbatim>\<open>len(x)\<close>: defined on strings, lists and dicts; a \<^verbatim>\<open>TypeError\<close> on the rest.\<close>

fun py_len :: "json \<Rightarrow> py_exn + nat" where
  "py_len (JStr s) = Inr (length s)"
| "py_len (JArr xs) = Inr (length xs)"
| "py_len (JObj kvs) = Inr (length kvs)"
| "py_len _ = Inl TypeError"

text \<open>
  \<^verbatim>\<open>parse_response\<close>. The decoder \<^verbatim>\<open>json.loads\<close> is the argument \<open>loads\<close>, with
  \<open>None\<close> for a \<^verbatim>\<open>JSONDecodeError\<close>; called on \<^verbatim>\<open>None\<close> instead of a string it raises a
  \<^verbatim>\<open>TypeError\<close>, which the \<^verbatim>\<open>except json.JSONDecodeError\<close> clause does not match.
  The argument of the log call, \<^verbatim>\<open>len(locations)\<close>, is evaluated before the return.
\<close>

definition parse_response :: "(string \<Rightarrow> json option) \<Rightarrow> string option \<Rightarrow> py_exn + json" where
  "parse_response loads response_text =
     (case response_text of
        None \<Rightarrow> Inl TypeError
      | Some text \<Rightarrow>
          (case loads text of
             None \<Rightarrow> Inr (JArr [])
           | Some decoded \<Rightarrow>
               (let locations = decoded;
                    locations = (if is_dict locations \<and> has_key ''locations'' locations
                                 then get_item locations ''locations'' else locations);
                    locations = (if is_dict locations then JArr [locations] else locations)
                in try_bind (py_len locations) (\<lambda>n. Inr locations))))"

subsection \<open>The two predictions\<close>

record TripCreateRequest =
  request_text :: string
  start_location :: "string option"
  num_places :: "int option"

text \<open>A stored location: the fields of \<^verbatim>\<open>LocationCreate\<close>, which are those of a
  \<^verbatim>\<open>Location\<close> row.\<close>

record location =
  l_trip_id :: "int option"
  l_name :: string
  l_description :: "string option"
  l_latitude :: pyfloat
  l_longitude :: pyfloat
  l_address :: "string option"
  l_city :: "string option"
  l_country :: "string option"
  l_order :: "int option"

text \<open>A row of the \<^verbatim>\<open>trips\<close> table with its \<^verbatim>\<open>locations\<close> relationship.\<close>

record trip =
  t_id :: int
  t_request_id :: "int option"
  t_parent_id :: "int option"
  t_response_json :: json
  t_num_places :: "int option"
  t_trip_type :: string
  t_locations :: "location list"

text \<open>
  Binding the arguments of a call of \<^verbatim>\<open>get_completions_create_response\<close>: the
  parameter \<^verbatim>\<open>num_places\<close> has no default, so a call must pass exactly one argument
  after \<^verbatim>\<open>self\<close>; otherwise the call itself raises a \<^verbatim>\<open>TypeError\<close> and the body does
  not run.
\<close>

definition call_get_completions_create_response ::
  "client \<Rightarrow> (nat \<Rightarrow> api_outcome) \<Rightarrow> int option list \<Rightarrow> event list \<times> (py_exn + string option)" where
  "call_get_completions_create_response self api args =
     (case args of
        [n] \<Rightarrow> get_completions_create_response self api n
      | _ \<Rightarrow> ([], Inl TypeError))"

definition pop :: "client \<Rightarrow> client" where
  "pop self = self\<lparr>messages := butlast (messages self)\<rparr>"

text \<open>The two \<^verbatim>\<open>finally\<close> blocks: they run however the \<^verbatim>\<open>try\<close> block ends.\<close>

definition finally_get_trip_prediction :: "client \<Rightarrow> client" where
  "finally_get_trip_prediction self = (if length (messages self) > 1 then pop self else self)"

definition finally_get_exlude_locations_prediction :: "client \<Rightarrow> client" where
  "finally_get_exlude_locations_prediction self =
     (if length (messages self) > 2 then pop (pop self) else self)"

text \<open>\<^verbatim>\<open>except ChatGPTError: return []\<close>, shared by both predictions.\<close>

definition except_ChatGPTError :: "py_exn + json \<Rightarrow> py_exn + json" where
  "except_ChatGPTError r =
     (case r of
        Inl e \<Rightarrow> if e = ChatGPTError then Inr (JArr []) else Inl e
      | Inr v \<Rightarrow> Inr v)"

text \<open>
  \<^verbatim>\<open>get_trip_prediction\<close>: the events of the call, what it returns or raises, and the
  client after the \<^verbatim>\<open>finally\<close> block.
\<close>

definition get_trip_prediction ::
  "(string \<Rightarrow> json option) \<Rightarrow> (nat \<Rightarrow> api_outcome) \<Rightarrow> client \<Rightarrow> TripCreateRequest \<Rightarrow> TripTypeEnum
     \<Rightarrow> event list \<times> (py_exn + json) \<times> client" where
  "get_trip_prediction loads api self trip trip_type =
     (let req_text = ''Generate location details for: '' @ request_text trip;
          req_text = (case start_location trip of
                        None \<Rightarrow> req_text
                      | Some s \<Rightarrow> if s \<noteq> [] then req_text @ '' '' @ s else req_text);
          req_text = (case num_places trip of
                        None \<Rightarrow> req_text
                      | Some n \<Rightarrow>
                          if n \<noteq> 0 \<and> \<not> trip_type = several_places
                          then req_text @ '', num_places = '' @ str_int n else req_text);
          req_text = req_text @
            ''. Return a list of all locations in the order they should be visited.'';
          self = add_message ''user'' req_text self;
          (evs, response_text) =
            call_get_completions_create_response self api [num_places trip];
          result = except_ChatGPTError (try_bind response_text (parse_response loads));
          self = finally_get_trip_prediction self
      in (evs, result, self))"

text \<open>
  \<^verbatim>\<open>get_exlude_locations_prediction\<close>. The stored payload is formatted into the first
  message by \<^verbatim>\<open>str\<close>, the argument \<open>py_str\<close>. The call of the bounded-retry function
  passes no argument.
\<close>

definition get_exlude_locations_prediction ::
  "(json \<Rightarrow> string) \<Rightarrow> (string \<Rightarrow> json option) \<Rightarrow> (nat \<Rightarrow> api_outcome) \<Rightarrow> client \<Rightarrow> trip \<Rightarrow> string
     \<Rightarrow> event list \<times> (py_exn + json) \<times> client" where
  "get_exlude_locations_prediction py_str loads api self previous_trip exclude_text =
     (let self = add_message ''user''
                   (''Previous generated trip was: '' @ py_str (t_response_json previous_trip)) self;
          self = add_message ''user'' (''Exclude text: '' @ exclude_text) self;
          num_places_text = [];
          num_places_text = (case t_num_places previous_trip of
                               None \<Rightarrow> num_places_text
                             | Some n \<Rightarrow>
                                 if n \<noteq> 0 \<and> t_trip_type previous_trip = enum_value by_place
                                 then num_places_text @ ''. num_places = '' @ str_int n
                                 else num_places_text);
          num_places_text = num_places_text @
            ''. Return a list of all locations in the order they should be visited.'';
          self = add_message ''user'' num_places_text self;
          (evs, response_text) = call_get_completions_create_response self api [];
          result = except_ChatGPTError (try_bind response_text (parse_response loads));
          self = finally_get_exlude_locations_prediction self
      in (evs, result, self))"

section \<open>Ordering and validation (utils.py)\<close>

subsection \<open>The haversine distance\<close>

text \<open>\<^verbatim>\<open>d[key]\<close> on any value: a \<^verbatim>\<open>KeyError\<close> for a dict without the key, a
  \<^verbatim>\<open>TypeError\<close> for a value that is not a dict (a string key was given).\<close>

fun subscript :: "json \<Rightarrow> string \<Rightarrow> py_exn + json" where
  "subscript (JObj kvs) k = (case map_of kvs k of Some v \<Rightarrow> Inr v | None \<Rightarrow> Inl KeyError)"
| "subscript _ k = Inl TypeError"

text \<open>
  The floating-point arithmetic of the platform is taken as given: the conversion of an
  \<^verbatim>\<open>int\<close> to a \<^verbatim>\<open>float\<close> (an \<^verbatim>\<open>OverflowError\<close> when the int is too large), the functions
  of the \<^verbatim>\<open>math\<close> module on floats (\<^verbatim>\<open>math.sin\<close> and \<^verbatim>\<open>math.cos\<close> raise a
  \<^verbatim>\<open>ValueError\<close> on an infinity, \<^verbatim>\<open>math.sqrt\<close> on a negative number, \<^verbatim>\<open>math.asin\<close>
  outside the interval from -1 to 1), and the rounded operations \<^verbatim>\<open>+\<close>, \<^verbatim>\<open>-\<close>, \<^verbatim>\<open>*\<close>,
  \<^verbatim>\<open>/\<close> and \<^verbatim>\<open>**\<close>. Nothing is assumed of their results.
\<close>

record arithmetic =
  fl_of_int :: "int \<Rightarrow> py_exn + pyfloat"
  fl_radians :: "pyfloat \<Rightarrow> pyfloat"
  fl_sin :: "pyfloat \<Rightarrow> py_exn + pyfloat"
  fl_cos :: "pyfloat \<Rightarrow> py_exn + pyfloat"
  fl_asin :: "pyfloat \<Rightarrow> py_exn + pyfloat"
  fl_sqrt :: "pyfloat \<Rightarrow> py_exn + pyfloat"
  fl_add :: "pyfloat \<Rightarrow> pyfloat \<Rightarrow> pyfloat"
  fl_sub :: "pyfloat \<Rightarrow> pyfloat \<Rightarrow> pyfloat"
  fl_mul :: "pyfloat \<Rightarrow> pyfloat \<Rightarrow> pyfloat"
  fl_div :: "pyfloat \<Rightarrow> pyfloat \<Rightarrow> py_exn + pyfloat"
  fl_pow :: "pyfloat \<Rightarrow> int \<Rightarrow> py_exn + pyfloat"

text \<open>\<^verbatim>\<open>math.radians\<close> takes a float or an int (a bool is an \<^verbatim>\<open>int\<close>), which it converts
  to a float first, and raises a \<^verbatim>\<open>TypeError\<close> on anything else.\<close>

fun math_radians :: "arithmetic \<Rightarrow> json \<Rightarrow> py_exn + pyfloat" where
  "math_radians fl (JFloat x) = Inr (fl_radians fl x)"
| "math_radians fl (JInt i) = try_bind (fl_of_int fl i) (\<lambda>x. Inr (fl_radians fl x))"
| "math_radians fl (JBool b) = try_bind (fl_of_int fl (of_bool b)) (\<lambda>x. Inr (fl_radians fl x))"
| "math_radians fl _ = Inl TypeError"

text \<open>The operations run in the order in which Python evaluates the expressions; the int
  operands 2 and 6371 are converted exactly.\<close>

definition haversine_distance ::
  "arithmetic \<Rightarrow> json \<Rightarrow> json \<Rightarrow> json \<Rightarrow> json \<Rightarrow> py_exn + pyfloat" where
  "haversine_distance fl lat1 lon1 lat2 lon2 =
     try_bind (math_radians fl lat1) (\<lambda>lat1.
     try_bind (math_radians fl lon1) (\<lambda>lon1.
     try_bind (math_radians fl lat2) (\<lambda>lat2.
     try_bind (math_radians fl lon2) (\<lambda>lon2.
       (let R = Finite 6371;
            dlat = fl_sub fl lat2 lat1;
            dlon = fl_sub fl lon2 lon1
        in try_bind (fl_div fl dlat (Finite 2)) (\<lambda>half_dlat.
           try_bind (fl_sin fl half_dlat) (\<lambda>sin_dlat.
           try_bind (fl_pow fl sin_dlat 2) (\<lambda>sin_dlat_squared.
           try_bind (fl_cos fl lat1) (\<lambda>cos_lat1.
           try_bind (fl_cos fl lat2) (\<lambda>cos_lat2.
           try_bind (fl_div fl dlon (Finite 2)) (\<lambda>half_dlon.
           try_bind (fl_sin fl half_dlon) (\<lambda>sin_dlon.
           try_bind (fl_pow fl sin_dlon 2) (\<lambda>sin_dlon_squared.
             (let a = fl_add fl sin_dlat_squared
                        (fl_mul fl (fl_mul fl cos_lat1 cos_lat2) sin_dlon_squared)
              in try_bind (fl_sqrt fl a) (\<lambda>root.
                 try_bind (fl_asin fl root) (\<lambda>angle.
                   (let c = fl_mul fl (Finite 2) angle
                    in Inr (fl_mul fl R c))))))))))))))))))"

subsection \<open>Greedy ordering\<close>

text \<open>The list comprehension \<^verbatim>\<open>distances\<close>: for each remaining location, in order, its
  two coordinates are read and then the distance is computed.\<close>

fun distances ::
  "arithmetic \<Rightarrow> json \<Rightarrow> json \<Rightarrow> json list \<Rightarrow> py_exn + (json \<times> pyfloat) list" where
  "distances fl last_lat last_lon [] = Inr []"
| "distances fl last_lat last_lon (loc # remaining) =
     try_bind (subscript loc ''latitude'') (\<lambda>lat.
     try_bind (subscript loc ''longitude'') (\<lambda>lon.
     try_bind (haversine_distance fl last_lat last_lon lat lon) (\<lambda>d.
     try_bind (distances fl last_lat last_lon remaining) (\<lambda>ds.
       Inr ((loc, d) # ds)))))"

text \<open>\<^verbatim>\<open>min(xs, key=...)\<close>: the running best is replaced only by an item with a
  strictly smaller key; the empty list raises a \<^verbatim>\<open>ValueError\<close>.\<close>

fun min_by :: "('a \<Rightarrow> pyfloat) \<Rightarrow> 'a \<Rightarrow> 'a list \<Rightarrow> 'a" where
  "min_by key best [] = best"
| "min_by key best (x # xs) =
     min_by key (if float_lt (key x) (key best) then x else best) xs"

definition py_min :: "('a \<Rightarrow> pyfloat) \<Rightarrow> 'a list \<Rightarrow> py_exn + 'a" where
  "py_min key xs = (case xs of [] \<Rightarrow> Inl ValueError | x # xs' \<Rightarrow> Inr (min_by key x xs'))"

text \<open>
  \<^verbatim>\<open>xs.remove(x)\<close> deletes the first item equal to \<open>x\<close> and raises a
  \<^verbatim>\<open>ValueError\<close> when there is none. Equality is that of the values here, which
  differs from Python's \<^verbatim>\<open>==\<close> on dicts (key order, \<^verbatim>\<open>True == 1\<close>, NaN). In the loop
  below both delete the same item, the chosen one: an earlier item equal to it in either
  sense has the same coordinates and so the same computed distance, and \<^verbatim>\<open>min\<close> would
  have kept the earlier one.
\<close>

definition list_remove :: "'a \<Rightarrow> 'a list \<Rightarrow> py_exn + 'a list" where
  "list_remove x xs = (if x \<in> set xs then Inr (remove1 x xs) else Inl ValueError)"

text \<open>The body of the \<^verbatim>\<open>while\<close> loop up to the choice of \<^verbatim>\<open>closest_loc\<close>.\<close>

definition closest :: "arithmetic \<Rightarrow> json \<Rightarrow> json list \<Rightarrow> py_exn + json" where
  "closest fl last_loc remaining =
     try_bind (subscript last_loc ''latitude'') (\<lambda>last_lat.
     try_bind (subscript last_loc ''longitude'') (\<lambda>last_lon.
     try_bind (distances fl last_lat last_lon remaining) (\<lambda>ds.
     try_bind (py_min snd ds) (\<lambda>(closest_loc, d). Inr closest_loc))))"

function order_loop :: "arithmetic \<Rightarrow> json list \<Rightarrow> json list \<Rightarrow> py_exn + json list" where
  "order_loop fl ordered remaining =
     (if remaining = [] then Inr ordered
      else
        (case closest fl (last ordered) remaining of
           Inl e \<Rightarrow> Inl e
         | Inr closest_loc \<Rightarrow>
             (case list_remove closest_loc remaining of
                Inl e \<Rightarrow> Inl e
              | Inr remaining' \<Rightarrow> order_loop fl (ordered @ [closest_loc]) remaining')))"
  by pat_completeness auto
termination
  by (relation "measure (\<lambda>(fl, ordered, remaining). length remaining)")
     (auto simp: list_remove_def length_remove1 split: if_splits)

declare order_loop.simps [simp del]

definition order_locations_by_distance :: "arithmetic \<Rightarrow> json list \<Rightarrow> py_exn + json list" where
  "order_locations_by_distance fl locations =
     (case locations of
        [] \<Rightarrow> Inr locations
      | first # rest \<Rightarrow> order_loop fl [first] rest)"

subsection \<open>Promotion to LocationCreate (schemas.py)\<close>

text \<open>
  How pydantic converts a raw value to the type of a field is the library's matter and is
  taken as given: \<open>None\<close> is a value the field type rejects. The constraints of each
  \<^verbatim>\<open>Field\<close> are the source's.
\<close>

record coercion =
  as_str :: "json \<Rightarrow> string option"
  as_float :: "json \<Rightarrow> pyfloat option"
  as_int :: "json \<Rightarrow> int option"

definition req_str :: "coercion \<Rightarrow> nat \<Rightarrow> nat \<Rightarrow> json option \<Rightarrow> string option" where
  "req_str co lo hi v =
     (case v of
        None \<Rightarrow> None
      | Some j \<Rightarrow>
          (case as_str co j of
             None \<Rightarrow> None
           | Some s \<Rightarrow> if lo \<le> length s \<and> length s \<le> hi then Some s else None))"

definition opt_str :: "coercion \<Rightarrow> nat \<Rightarrow> json option \<Rightarrow> string option option" where
  "opt_str co hi v =
     (case v of
        None \<Rightarrow> Some None
      | Some j \<Rightarrow>
          if j = JNull then Some None
          else (case as_str co j of
                  None \<Rightarrow> None
                | Some s \<Rightarrow> if length s \<le> hi then Some (Some s) else None))"

definition req_float :: "coercion \<Rightarrow> real \<Rightarrow> real \<Rightarrow> json option \<Rightarrow> pyfloat option" where
  "req_float co lo hi v =
     (case v of
        None \<Rightarrow> None
      | Some j \<Rightarrow>
          (case as_float co j of
             None \<Rightarrow> None
           | Some x \<Rightarrow>
               if float_le (Finite lo) x \<and> float_le x (Finite hi) then Some x else None))"

definition opt_int :: "coercion \<Rightarrow> json option \<Rightarrow> int option option" where
  "opt_int co v =
     (case v of
        None \<Rightarrow> Some None
      | Some j \<Rightarrow>
          if j = JNull then Some None
          else (case as_int co j of None \<Rightarrow> None | Some i \<Rightarrow> Some (Some i)))"

text \<open>
  \<^verbatim>\<open>LocationCreate(trip_id=..., **location)\<close>. Unpacking a value that is not a dict, or
  a dict that has the key \<^verbatim>\<open>trip_id\<close> itself, is a \<^verbatim>\<open>TypeError\<close> of the call; a field
  that fails is a \<^verbatim>\<open>pydantic.ValidationError\<close>; keys that are no fields are ignored.
\<close>

definition LocationCreate :: "coercion \<Rightarrow> int option \<Rightarrow> json \<Rightarrow> py_exn + location" where
  "LocationCreate co trip_id loc =
     (case loc of
        JObj kvs \<Rightarrow>
          if map_of kvs ''trip_id'' \<noteq> None then Inl TypeError
          else
            (case
               Option.bind (if (case trip_id of None \<Rightarrow> True | Some i \<Rightarrow> 1 \<le> i)
                            then Some trip_id else None) (\<lambda>tid.
               Option.bind (req_str co 1 100 (map_of kvs ''name'')) (\<lambda>nm.
               Option.bind (opt_str co 1000 (map_of kvs ''description'')) (\<lambda>ds.
               Option.bind (req_float co (- 90) 90 (map_of kvs ''latitude'')) (\<lambda>la.
               Option.bind (req_float co (- 180) 180 (map_of kvs ''longitude'')) (\<lambda>lo.
               Option.bind (opt_str co 255 (map_of kvs ''address'')) (\<lambda>ad.
               Option.bind (opt_str co 100 (map_of kvs ''city'')) (\<lambda>ci.
               Option.bind (opt_str co 100 (map_of kvs ''country'')) (\<lambda>cu.
               Option.bind (opt_int co (map_of kvs ''order'')) (\<lambda>od.
                 Some \<lparr>l_trip_id = tid, l_name = nm, l_description = ds, l_latitude = la,
                       l_longitude = lo, l_address = ad, l_city = ci, l_country = cu,
                       l_order = od\<rparr>)))))))))
             of
               None \<Rightarrow> Inl ValidationError
             | Some l \<Rightarrow> Inr l)
      | _ \<Rightarrow> Inl TypeError)"

text \<open>The list comprehension over the ordered locations stops at the first exception.\<close>

fun promote_all :: "coercion \<Rightarrow> json list \<Rightarrow> py_exn + location list" where
  "promote_all co [] = Inr []"
| "promote_all co (loc # locs) =
     try_bind (LocationCreate co None loc) (\<lambda>l.
     try_bind (promote_all co locs) (\<lambda>ls. Inr (l # ls)))"

subsection \<open>Validation of a prediction\<close>

text \<open>\<^verbatim>\<open>not x\<close>.\<close>

fun py_not :: "json \<Rightarrow> bool" where
  "py_not JNull = True"
| "py_not (JBool b) = (\<not> b)"
| "py_not (JInt i) = (i = 0)"
| "py_not (JFloat x) = (x = Finite 0)"
| "py_not (JStr s) = (s = [])"
| "py_not (JArr xs) = (xs = [])"
| "py_not (JObj kvs) = (kvs = [])"

text \<open>
  The items of a value that is indexed, sliced and iterated as the list of locations:
  those of a list, and the one-character strings of a string. On a dict \<^verbatim>\<open>x[0]\<close> is a
  \<^verbatim>\<open>KeyError\<close>, on the other values a \<^verbatim>\<open>TypeError\<close>.
\<close>

fun items :: "json \<Rightarrow> py_exn + json list" where
  "items (JArr xs) = Inr xs"
| "items (JStr s) = Inr (map (\<lambda>c. JStr [c]) s)"
| "items (JObj kvs) = Inl KeyError"
| "items _ = Inl TypeError"

definition validate_prediction_locations ::
  "arithmetic \<Rightarrow> coercion \<Rightarrow> json \<Rightarrow> py_exn + location list" where
  "validate_prediction_locations fl co prediction_locations_list =
     (if py_not prediction_locations_list then Inl (HTTPException 400 No_locations_generated)
      else
        try_bind (items prediction_locations_list) (\<lambda>locations.
        try_bind (order_locations_by_distance fl locations) (\<lambda>ordered_locations.
          (case promote_all co ordered_locations of
             Inl e \<Rightarrow>
               if e = ValidationError
               then Inl (HTTPException 400 (Invalid_location_data (hd locations)))
               else Inl e
           | Inr locations_list \<Rightarrow> Inr locations_list))))"

section \<open>Assembling a trip (schemas.py, services.py, routes.py)\<close>

record trip_create =
  tc_request_id :: "int option"
  tc_parent_id :: "int option"
  tc_response_json :: json
  tc_num_places :: "int option"
  tc_trip_type :: TripTypeEnum

fun enum_of_value :: "string \<Rightarrow> TripTypeEnum option" where
  "enum_of_value s =
     (if s = enum_value several_places then Some several_places
      else if s = enum_value by_place then Some by_place
      else None)"

text \<open>The field \<^verbatim>\<open>response_json\<close> takes \<^verbatim>\<open>None\<close>, a dict or a list of dicts.\<close>

fun valid_response_json :: "json \<Rightarrow> bool" where
  "valid_response_json JNull = True"
| "valid_response_json (JObj kvs) = True"
| "valid_response_json (JArr xs) = list_all is_dict xs"
| "valid_response_json _ = False"

definition TripCreate ::
  "int option \<Rightarrow> int option \<Rightarrow> json \<Rightarrow> int option \<Rightarrow> string \<Rightarrow> py_exn + trip_create" where
  "TripCreate request_id parent_id response_json n_places trip_type =
     (if \<not> valid_response_json response_json then Inl ValidationError
      else
        (case enum_of_value trip_type of
           None \<Rightarrow> Inl ValidationError
         | Some tt \<Rightarrow>
             Inr \<lparr>tc_request_id = request_id, tc_parent_id = parent_id,
                  tc_response_json = response_json, tc_num_places = n_places,
                  tc_trip_type = tt\<rparr>))"

text \<open>\<^verbatim>\<open>TripService.create_trip\<close>: the row gets the identifier that the database
  assigns, \<open>new_id\<close>, and has no locations yet.\<close>

definition TripService_create_trip :: "int \<Rightarrow> trip_create \<Rightarrow> trip" where
  "TripService_create_trip new_id trip_data =
     \<lparr>t_id = new_id, t_request_id = tc_request_id trip_data,
      t_parent_id = tc_parent_id trip_data, t_response_json = tc_response_json trip_data,
      t_num_places = tc_num_places trip_data,
      t_trip_type = enum_value (tc_trip_type trip_data), t_locations = []\<rparr>"

text \<open>\<^verbatim>\<open>LocationService.create_locations_for_trip\<close>: every location gets the trip and
  its 1-based position, and one row is stored for each.\<close>

definition create_locations_for_trip :: "int \<Rightarrow> location list \<Rightarrow> py_exn + location list" where
  "create_locations_for_trip trip_id locations_data =
     (if trip_id = 0 then Inl ValueError
      else Inr (map (\<lambda>(i, location_data).
                  location_data\<lparr>l_trip_id := Some trip_id, l_order := Some (int i + 1)\<rparr>)
                (enumerate 0 locations_data)))"

text \<open>
  The part that both routes run on the prediction (routes.py, lines 64 to 79 and 140 to
  154): validation, the \<^verbatim>\<open>TripCreate\<close> with its \<^verbatim>\<open>parent_id\<close> and \<^verbatim>\<open>trip_type\<close>, the
  trip row and its locations. The result is the trip as read back with its locations.
\<close>

definition assemble_trip ::
  "arithmetic \<Rightarrow> coercion \<Rightarrow> int \<Rightarrow> int option \<Rightarrow> string \<Rightarrow> int \<Rightarrow> json \<Rightarrow> py_exn + trip" where
  "assemble_trip fl co request_id parent_id trip_type new_id prediction_locations_list =
     try_bind (validate_prediction_locations fl co prediction_locations_list) (\<lambda>locations_list.
     try_bind (py_len prediction_locations_list) (\<lambda>n.
     try_bind (TripCreate (Some request_id) parent_id prediction_locations_list
                 (Some (int n)) trip_type) (\<lambda>trip_data.
       (let trip = TripService_create_trip new_id trip_data
        in try_bind (create_locations_for_trip (t_id trip) locations_list) (\<lambda>locations.
             Inr (trip\<lparr>t_locations := locations\<rparr>))))))"

text \<open>What a request handler is given from outside the core: the prompts and the model
  name of the configuration, the library functions and the arithmetic.\<close>

record env =
  env_prompts :: prompts
  openai_model :: string
  json_loads :: "string \<Rightarrow> json option"
  py_str :: "json \<Rightarrow> string"
  pydantic :: coercion
  floats :: arithmetic

definition create_trip ::
  "env \<Rightarrow> (nat \<Rightarrow> api_outcome) \<Rightarrow> int \<Rightarrow> int \<Rightarrow> TripCreateRequest \<Rightarrow> TripTypeEnum
     \<Rightarrow> py_exn + trip" where
  "create_trip env api request_id new_id trip_data trip_type =
     (let chat_trip = OpenAIChatClientTrip (env_prompts env) (openai_model env)
                        (enum_value trip_type);
          (evs, prediction, chat_trip) =
            get_trip_prediction (json_loads env) api chat_trip trip_data trip_type
      in try_bind prediction (\<lambda>prediction_locations_list.
           assemble_trip (floats env) (pydantic env) request_id None (enum_value trip_type)
             new_id prediction_locations_list))"

text \<open>\<open>previous_trip\<close> is what \<^verbatim>\<open>get_trip_by_request_id\<close> found.\<close>

definition exclude_locations_from_trip ::
  "env \<Rightarrow> (nat \<Rightarrow> api_outcome) \<Rightarrow> trip option \<Rightarrow> int \<Rightarrow> int \<Rightarrow> string \<Rightarrow> py_exn + trip" where
  "exclude_locations_from_trip env api found request_id new_id exclude_text =
     (case found of
        None \<Rightarrow> Inl (HTTPException 404 Trip_not_found)
      | Some previous_trip \<Rightarrow>
          (let chat_trip = OpenAIChatClientTrip (env_prompts env) (openai_model env)
                             (t_trip_type previous_trip);
               (evs, prediction, chat_trip) =
                 get_exlude_locations_prediction (py_str env) (json_loads env) api chat_trip
                   previous_trip exclude_text
           in try_bind prediction (\<lambda>prediction_locations_list.
                assemble_trip (floats env) (pydantic env) request_id
                  (Some (t_id previous_trip)) (t_trip_type previous_trip) new_id
                  prediction_locations_list)))"

section \<open>The contract of the ordering, in the words of the specification\<close>

text \<open>
  The distance from one location to another as the program computes it: the haversine
  formula of \<^verbatim>\<open>haversine_distance\<close> (radius 6371 km, degrees converted to radians) on
  the coordinates of the two, in the arithmetic of the platform.
\<close>

definition computed_distance :: "arithmetic \<Rightarrow> json \<Rightarrow> json \<Rightarrow> py_exn + pyfloat" where
  "computed_distance fl p q =
     try_bind (subscript p ''latitude'') (\<lambda>lat1.
     try_bind (subscript p ''longitude'') (\<lambda>lon1.
     try_bind (subscript q ''latitude'') (\<lambda>lat2.
     try_bind (subscript q ''longitude'') (\<lambda>lon2.
       haversine_distance fl lat1 lon1 lat2 lon2))))"

text \<open>The computation gives a number: it raises nothing and its result is no NaN.\<close>

definition measurable :: "arithmetic \<Rightarrow> json \<Rightarrow> json \<Rightarrow> bool" where
  "measurable fl p q = (case computed_distance fl p q of Inr d \<Rightarrow> d \<noteq> NaN | Inl e \<Rightarrow> False)"

definition distance :: "arithmetic \<Rightarrow> json \<Rightarrow> json \<Rightarrow> pyfloat" where
  "distance fl p q = (case computed_distance fl p q of Inr d \<Rightarrow> d | Inl e \<Rightarrow> NaN)"

text \<open>Among \<open>xs\<close>, the first element in list order whose distance from \<open>p\<close> is
  minimal.\<close>

definition first_nearest :: "arithmetic \<Rightarrow> json \<Rightarrow> json list \<Rightarrow> json option" where
  "first_nearest fl p xs =
     find (\<lambda>x. \<forall>y\<in>set xs. float_le (distance fl p x) (distance fl p y)) xs"

text \<open>The input elements not yet placed, in input order: each placed element is taken
  out once.\<close>

definition unplaced :: "json list \<Rightarrow> json list \<Rightarrow> json list" where
  "unplaced locations placed = fold remove1 placed locations"

fun greedy_chain :: "arithmetic \<Rightarrow> json \<Rightarrow> json list \<Rightarrow> json list \<Rightarrow> bool" where
  "greedy_chain fl p remaining [] = (remaining = [])"
| "greedy_chain fl p remaining (x # out) =
     (first_nearest fl p remaining = Some x \<and> greedy_chain fl x (remove1 x remaining) out)"

section \<open>Observing the bounded-retry call\<close>

text \<open>The request that a client sends: its model and its whole message list, the
  response format and the temperature.\<close>

definition request_of :: "client \<Rightarrow> completion_request" where
  "request_of self =
     \<lparr>req_model = model self, req_messages = messages self,
      response_format = ''json_object'', temperature = 7 / 10\<rparr>"

section \<open>The validator and the conversation, as the specification names them\<close>

text \<open>The operation \<open>validate\<close> on a raw payload: the text is parsed by
  \<^verbatim>\<open>parse_response\<close> and the result is given to \<^verbatim>\<open>validate_prediction_locations\<close>, as
  \<^verbatim>\<open>create_trip\<close> does with the text of the completion.\<close>

definition validate ::
  "arithmetic \<Rightarrow> (string \<Rightarrow> json option) \<Rightarrow> coercion \<Rightarrow> string \<Rightarrow> py_exn + location list" where
  "validate fl loads co raw_payload =
     try_bind (parse_response loads (Some raw_payload)) (validate_prediction_locations fl co)"

text \<open>A call on a client, with what the completion client answers during it, and the
  client that the call leaves behind.\<close>

datatype call =
    Trip_prediction "nat \<Rightarrow> api_outcome" TripCreateRequest TripTypeEnum
  | Exclude_prediction "nat \<Rightarrow> api_outcome" trip string

fun after_call :: "(json \<Rightarrow> string) \<Rightarrow> (string \<Rightarrow> json option) \<Rightarrow> client \<Rightarrow> call \<Rightarrow> client" where
  "after_call str_of loads self (Trip_prediction api trip trip_type) =
     snd (snd (get_trip_prediction loads api self trip trip_type))"
| "after_call str_of loads self (Exclude_prediction api previous_trip exclude_text) =
     snd (snd (get_exlude_locations_prediction str_of loads api self previous_trip exclude_text))"

text \<open>The invariant of a stored trip: the place count, the number of locations and the
  length of the stored payload agree.\<close>

definition counts_agree :: "trip \<Rightarrow> bool" where
  "counts_agree t =
     (t_num_places t = Some (int (length (t_locations t)))
      \<and> py_len (t_response_json t) = Inr (length (t_locations t)))"

section \<open>Sample inputs\<close>

definition eiffel_tower :: json where
  "eiffel_tower =
     JObj [(''name'', JStr ''Eiffel Tower''), (''latitude'', JFloat (Finite 48.8584)),
           (''longitude'', JFloat (Finite 2.2945)), (''city'', JStr ''Paris'')]"

definition berlin :: json where
  "berlin =
     JObj [(''name'', JStr ''Berlin''), (''latitude'', JFloat (Finite 52.52)),
           (''longitude'', JFloat (Finite 13.405)), (''city'', JStr ''Berlin'')]"

definition kyiv :: json where
  "kyiv =
     JObj [(''name'', JStr ''Kyiv''), (''latitude'', JFloat (Finite 50.4501)),
           (''longitude'', JFloat (Finite 30.5234)), (''city'', JStr ''Kyiv'')]"

definition sample_prompts :: prompts where
  "sample_prompts =
     \<lparr>TRIP_PROMPT_SEVERAL_PLACES = ''You are an assistant that generates a JSON list'',
      TRIP_PROMPT_SINGLE_PLACE = ''You are an assistant that generates a JSON object''\<rparr>"

definition sample_client :: client where
  "sample_client = OpenAIChatClientTrip sample_prompts ''gpt-3.5-turbo-1106'' ''by_place''"

text \<open>A conversion that takes a JSON string for a \<^verbatim>\<open>str\<close> field, a JSON float or int
  for a \<^verbatim>\<open>float\<close> field and a JSON int for an \<^verbatim>\<open>int\<close> field.\<close>

definition sample_coercion :: coercion where
  "sample_coercion =
     \<lparr>as_str = (\<lambda>j. case j of JStr s \<Rightarrow> Some s | _ \<Rightarrow> None),
      as_float = (\<lambda>j. case j of
                         JFloat x \<Rightarrow> Some x
                       | JInt i \<Rightarrow> Some (Finite (of_int i))
                       | _ \<Rightarrow> None),
      as_int = (\<lambda>j. case j of JInt i \<Rightarrow> Some i | _ \<Rightarrow> None)\<rparr>"

text \<open>
  An arithmetic for the sample computations: it computes in the reals, without
  rounding, raises the domain errors of the \<^verbatim>\<open>math\<close> functions, and gives a NaN where an
  operand is no finite number.
\<close>

fun lift2 :: "(real \<Rightarrow> real \<Rightarrow> real) \<Rightarrow> pyfloat \<Rightarrow> pyfloat \<Rightarrow> pyfloat" where
  "lift2 f (Finite x) (Finite y) = Finite (f x y)"
| "lift2 f _ _ = NaN"

definition unrounded :: arithmetic where
  "unrounded =
     \<lparr>fl_of_int = (\<lambda>i. Inr (Finite (of_int i))),
      fl_radians = (\<lambda>x. case x of Finite r \<Rightarrow> Finite (r * pi / 180) | _ \<Rightarrow> x),
      fl_sin = (\<lambda>x. case x of
                       Finite r \<Rightarrow> Inr (Finite (sin r))
                     | NaN \<Rightarrow> Inr NaN
                     | _ \<Rightarrow> Inl ValueError),
      fl_cos = (\<lambda>x. case x of
                       Finite r \<Rightarrow> Inr (Finite (cos r))
                     | NaN \<Rightarrow> Inr NaN
                     | _ \<Rightarrow> Inl ValueError),
      fl_asin = (\<lambda>x. case x of
                        Finite r \<Rightarrow>
                          if - 1 \<le> r \<and> r \<le> 1 then Inr (Finite (arcsin r)) else Inl ValueError
                      | NaN \<Rightarrow> Inr NaN
                      | _ \<Rightarrow> Inl ValueError),
      fl_sqrt = (\<lambda>x. case x of
                        Finite r \<Rightarrow> if 0 \<le> r then Inr (Finite (sqrt r)) else Inl ValueError
                      | PosInf \<Rightarrow> Inr PosInf
                      | NaN \<Rightarrow> Inr NaN
                      | NegInf \<Rightarrow> Inl ValueError),
      fl_add = lift2 (+),
      fl_sub = lift2 (-),
      fl_mul = lift2 (*),
      fl_div = (\<lambda>x y. if y = Finite 0 then Inl ZeroDivisionError else Inr (lift2 (/) x y)),
      fl_pow = (\<lambda>x n. case x of
                         Finite r \<Rightarrow>
                           if r = 0 \<and> n < 0 then Inl ZeroDivisionError
                           else Inr (Finite (power_int r n))
                       | _ \<Rightarrow> Inr NaN)\<rparr>"

text \<open>A decoder for the sample texts: it answers as \<^verbatim>\<open>json.loads\<close> does on the four
  JSON texts listed, and reports a decoding error on every other text; of the other
  texts only \<^verbatim>\<open>oops\<close>, which is no JSON, is ever given to it.\<close>

definition sample_loads :: "string \<Rightarrow> json option" where
  "sample_loads text =
     (if text = ''[]'' then Some (JArr [])
      else if text = ''{}'' then Some (JObj [])
      else if text = ''[{}]'' then Some (JArr [JObj []])
      else if text = ''{'' @ [CHR 0x22] @ ''locations'' @ [CHR 0x22] @ '':[{}]}''
        then Some (JObj [(''locations'', JArr [JObj []])])
      else None)"

definition sample_env :: env where
  "sample_env =
     \<lparr>env_prompts = sample_prompts, openai_model = ''gpt-3.5-turbo-1106'',
      json_loads = sample_loads, py_str = (\<lambda>j. ''[...]''), pydantic = sample_coercion,
      floats = unrounded\<rparr>"

definition sample_request :: TripCreateRequest where
  "sample_request =
     \<lparr>request_text = ''Rome'', start_location = None, num_places = Some 3\<rparr>"

text \<open>A record whose latitude is out of range.\<close>

definition off_the_map :: json where
  "off_the_map =
     JObj [(''name'', JStr ''Nowhere''), (''latitude'', JInt 200), (''longitude'', JInt 0)]"

text \<open>A stored trip to refine; the calls below read its payload, its place count and its
  type, not its locations.\<close>

definition sample_trip :: trip where
  "sample_trip =
     \<lparr>t_id = 5, t_request_id = Some 11, t_parent_id = None,
      t_response_json = JArr [eiffel_tower, berlin], t_num_places = Some 2,
      t_trip_type = ''by_place'', t_locations = []\<rparr>"

section \<open>Properties\<close>

lemma upt_max_retries: "[0..<max_retries] = [0, 1, 2, 3]"
  by (simp add: max_retries_def upt_rec)

subsection \<open>The greedy ordering\<close>

lemma float_le_refl: "a \<noteq> NaN \<Longrightarrow> float_le a a"
  by (cases a) (simp_all add: float_le_def)

lemma float_lt_le: "float_lt a b \<Longrightarrow> float_le a b"
  by (cases a; cases b) (simp_all add: float_le_def)

lemma float_le_trans: "float_le a b \<Longrightarrow> float_le b c \<Longrightarrow> float_le a c"
  by (cases a; cases b; cases c) (simp_all add: float_le_def)

lemma float_lt_not_le: "float_lt a b \<Longrightarrow> \<not> float_le b a"
  by (simp add: float_le_def)

lemma not_float_lt_le: "a \<noteq> NaN \<Longrightarrow> b \<noteq> NaN \<Longrightarrow> \<not> float_lt a b \<Longrightarrow> float_le b a"
  by (simp add: float_le_def)

lemma measurableE:
  assumes "measurable fl p q"
  obtains d where "computed_distance fl p q = Inr d" "d \<noteq> NaN" "distance fl p q = d"
  using assms unfolding measurable_def distance_def by (auto split: sum.splits)

lemma computed_distance_InrD:
  assumes "computed_distance fl p q = Inr d"
  obtains a b c e where "subscript p ''latitude'' = Inr a" "subscript p ''longitude'' = Inr b"
    "subscript q ''latitude'' = Inr c" "subscript q ''longitude'' = Inr e"
    "haversine_distance fl a b c e = Inr d"
proof -
  from assms obtain a where a: "subscript p ''latitude'' = Inr a"
    by (cases "subscript p ''latitude''") (simp_all add: computed_distance_def)
  from assms a obtain b where b: "subscript p ''longitude'' = Inr b"
    by (cases "subscript p ''longitude''") (simp_all add: computed_distance_def)
  from assms a b obtain c where c: "subscript q ''latitude'' = Inr c"
    by (cases "subscript q ''latitude''") (simp_all add: computed_distance_def)
  from assms a b c obtain e where e: "subscript q ''longitude'' = Inr e"
    by (cases "subscript q ''longitude''") (simp_all add: computed_distance_def)
  from assms a b c e have "haversine_distance fl a b c e = Inr d"
    by (simp add: computed_distance_def)
  with a b c e show ?thesis by (rule that)
qed

lemma distances_measurable:
  assumes "subscript p ''latitude'' = Inr a" "subscript p ''longitude'' = Inr b"
    "\<forall>l\<in>set remaining. measurable fl p l"
  shows "distances fl a b remaining = Inr (map (\<lambda>l. (l, distance fl p l)) remaining)"
  using assms(3)
proof (induction remaining)
  case Nil
  then show ?case by simp
next
  case (Cons l ls)
  from Cons.prems have "measurable fl p l" by simp
  then obtain d where d: "computed_distance fl p l = Inr d" "distance fl p l = d"
    by (rule measurableE)
  from d(1) obtain a' b' c e where "subscript p ''latitude'' = Inr a'"
    "subscript p ''longitude'' = Inr b'" and ce: "subscript l ''latitude'' = Inr c"
    "subscript l ''longitude'' = Inr e" and h: "haversine_distance fl a' b' c e = Inr d"
    by (rule computed_distance_InrD)
  with assms(1,2) have "haversine_distance fl a b c e = Inr d" by simp
  with ce d(2) Cons show ?case by simp
qed

lemma min_by_map:
  "min_by snd (x, k x) (map (\<lambda>l. (l, k l)) xs) = (min_by k x xs, k (min_by k x xs))"
  by (induction xs arbitrary: x) simp_all

lemma min_by_snoc:
  "min_by key b (xs @ [x]) =
     (if float_lt (key x) (key (min_by key b xs)) then x else min_by key b xs)"
  by (induction xs arbitrary: b) simp_all

lemma find_SomeD: "find P xs = Some x \<Longrightarrow> P x \<and> x \<in> set xs"
  by (auto simp: find_Some_iff)

lemma find_snoc:
  "find P (xs @ [y]) = (case find P xs of None \<Rightarrow> find P [y] | Some x \<Rightarrow> Some x)"
  by (induction xs) simp_all

lemma find_min_snoc:
  assumes "find (\<lambda>z. \<forall>y\<in>set L. float_le (key z) (key y)) L = Some m"
    and "\<forall>z\<in>set (L @ [x]). key z \<noteq> NaN"
  shows "find (\<lambda>z. \<forall>y\<in>set (L @ [x]). float_le (key z) (key y)) (L @ [x])
           = Some (if float_lt (key x) (key m) then x else m)"
proof -
  let ?P = "\<lambda>z. \<forall>y\<in>set L. float_le (key z) (key y)"
  let ?Q = "\<lambda>z. \<forall>y\<in>set (L @ [x]). float_le (key z) (key y)"
  from assms(1) have m_min: "?P m" and m_in: "m \<in> set L"
    using find_SomeD [of ?P L m] by blast+
  from assms(2) m_in have nan: "key x \<noteq> NaN" "key m \<noteq> NaN" by simp_all
  show ?thesis
  proof (cases "float_lt (key x) (key m)")
    case True
    have "\<not> ?Q z" if "z \<in> set L" for z
    proof
      assume "?Q z"
      then have "float_le (key z) (key x)" by simp
      moreover from m_min that have "float_le (key m) (key z)" by blast
      ultimately have "float_le (key m) (key x)" by (rule float_le_trans [rotated])
      with True show False by (simp add: float_lt_not_le)
    qed
    then have "find ?Q L = None" by (simp add: find_None_iff)
    moreover have "?Q x"
    proof
      fix y assume "y \<in> set (L @ [x])"
      then consider "y \<in> set L" | "y = x" by auto
      then show "float_le (key x) (key y)"
      proof cases
        case 1
        with m_min have "float_le (key m) (key y)" by blast
        with float_lt_le [OF True] show ?thesis by (rule float_le_trans)
      next
        case 2
        with nan(1) show ?thesis by (simp add: float_le_refl)
      qed
    qed
    ultimately show ?thesis using True by (simp add: find_snoc)
  next
    case False
    with nan have mx: "float_le (key m) (key x)" by (simp add: not_float_lt_le)
    have "?Q z = ?P z" if "z \<in> set L" for z
    proof
      assume "?Q z" then show "?P z" by simp
    next
      assume P: "?P z"
      with m_in have "float_le (key z) (key m)" by blast
      then have "float_le (key z) (key x)" using mx by (rule float_le_trans)
      with P show "?Q z" by simp
    qed
    then have "find ?Q L = find ?P L" by (intro find_cong) auto
    with assms(1) False show ?thesis by (simp add: find_snoc)
  qed
qed

text \<open>Python's \<^verbatim>\<open>min\<close> with a key returns the first item whose key is minimal, when no
  key is a NaN.\<close>

lemma min_by_find:
  assumes "\<forall>z\<in>set (b # xs). key z \<noteq> NaN"
  shows "find (\<lambda>x. \<forall>y\<in>set (b # xs). float_le (key x) (key y)) (b # xs)
           = Some (min_by key b xs)"
  using assms
proof (induction xs rule: rev_induct)
  case Nil
  then show ?case by (simp add: float_le_refl)
next
  case (snoc x xs)
  from snoc.prems have "\<forall>z\<in>set (b # xs). key z \<noteq> NaN" by simp
  from snoc.IH [OF this] have "find (\<lambda>z. \<forall>y\<in>set (b # xs). float_le (key z) (key y)) (b # xs)
      = Some (min_by key b xs)" .
  from find_min_snoc [OF this, of x] snoc.prems show ?case
    by (simp only: min_by_snoc append_Cons)
qed

lemma min_by_in_set: "min_by key b xs \<in> set (b # xs)"
  by (induction xs arbitrary: b) auto

lemma closest_first_nearest:
  assumes "\<forall>l\<in>set (r # rs). measurable fl p l"
  shows "closest fl p (r # rs) = Inr (min_by (distance fl p) r rs)"
proof -
  from assms have "measurable fl p r" by simp
  then obtain d where "computed_distance fl p r = Inr d" by (rule measurableE)
  then obtain a b where ab: "subscript p ''latitude'' = Inr a"
    "subscript p ''longitude'' = Inr b"
    by (rule computed_distance_InrD)
  have "distances fl a b (r # rs) = Inr (map (\<lambda>l. (l, distance fl p l)) (r # rs))"
    using ab assms by (rule distances_measurable)
  then show ?thesis
    using ab by (simp add: closest_def py_min_def min_by_map del: distances.simps)
qed

lemma first_nearest_min_by:
  assumes "\<forall>l\<in>set (r # rs). measurable fl p l"
  shows "first_nearest fl p (r # rs) = Some (min_by (distance fl p) r rs)"
proof -
  have "\<forall>z\<in>set (r # rs). distance fl p z \<noteq> NaN"
  proof
    fix z assume "z \<in> set (r # rs)"
    with assms have "measurable fl p z" by blast
    then show "distance fl p z \<noteq> NaN" by (rule measurableE) simp
  qed
  then show ?thesis unfolding first_nearest_def by (rule min_by_find)
qed

text \<open>The loop: from any state in which every distance it may compute is a number, it
  ends without an exception, having appended the remaining locations in greedy order.\<close>

lemma order_loop_greedy:
  assumes "\<forall>p\<in>S. \<forall>q\<in>S. measurable fl p q" "last ordered \<in> S" "set remaining \<subseteq> S"
  shows "\<exists>out. order_loop fl ordered remaining = Inr (ordered @ out)
           \<and> mset out = mset remaining
           \<and> greedy_chain fl (last ordered) remaining out"
  using assms(2,3)
proof (induction "length remaining" arbitrary: ordered remaining rule: less_induct)
  case less
  show ?case
  proof (cases remaining)
    case Nil
    then show ?thesis by (simp add: order_loop.simps [of fl ordered "[]"])
  next
    case (Cons r rs)
    let ?m = "min_by (distance fl (last ordered)) r rs"
    let ?rest = "remove1 ?m remaining"
    have m_in: "?m \<in> set remaining" unfolding Cons by (rule min_by_in_set)
    have meas: "\<forall>l\<in>set (r # rs). measurable fl (last ordered) l"
      using assms(1) less.prems Cons by blast
    have cl: "closest fl (last ordered) remaining = Inr ?m"
      unfolding Cons using meas by (rule closest_first_nearest)
    have step: "order_loop fl ordered remaining = order_loop fl (ordered @ [?m]) ?rest"
      using m_in cl Cons by (subst order_loop.simps) (simp add: list_remove_def)
    have shorter: "length ?rest < length remaining"
      using m_in by (simp add: length_remove1) (cases remaining; simp)
    have "last (ordered @ [?m]) \<in> S" using m_in less.prems(2) by auto
    moreover have "set ?rest \<subseteq> S"
      using less.prems(2) by (meson notin_set_remove1 subsetD subsetI)
    ultimately obtain out where out:
      "order_loop fl (ordered @ [?m]) ?rest = Inr ((ordered @ [?m]) @ out)"
      "mset out = mset ?rest" "greedy_chain fl (last (ordered @ [?m])) ?rest out"
      using less.hyps [OF shorter] by blast
    have "order_loop fl ordered remaining = Inr (ordered @ ?m # out)"
      using step out(1) by simp
    moreover have "mset (?m # out) = mset remaining"
      using out(2) m_in by simp
    moreover have "greedy_chain fl (last ordered) remaining (?m # out)"
      using out(3) first_nearest_min_by [OF meas] Cons by simp
    ultimately show ?thesis by blast
  qed
qed

lemma greedy_chain_nth:
  "greedy_chain fl p remaining out \<Longrightarrow> k < length out \<Longrightarrow>
   first_nearest fl ((p # out) ! k) (fold remove1 (take k out) remaining) = Some (out ! k)"
proof (induction out arbitrary: p remaining k)
  case Nil
  then show ?case by simp
next
  case (Cons x out)
  show ?case
  proof (cases k)
    case 0
    with Cons.prems show ?thesis by simp
  next
    case (Suc j)
    with Cons.prems have "greedy_chain fl x (remove1 x remaining) out" "j < length out"
      by simp_all
    from Cons.IH [OF this] Suc show ?thesis by simp
  qed
qed

text \<open>
  Claim C1. On a list of locations between any two of which the program's distance
  computation gives a number (no exception, no NaN), \<^verbatim>\<open>order_locations_by_distance\<close>
  returns a list: the empty list for the empty list; otherwise its first element is the
  first input element, it is a permutation of the input (the same multiset), and every
  later element is, among the input elements not yet placed, taken in input order, the
  first one at minimal distance from the element placed just before it. The distance is
  the one that \<^verbatim>\<open>haversine_distance\<close> computes (radius 6371 km, degrees converted to
  radians) in the floating-point arithmetic of the platform, and its minimum is taken by
  the comparison of floats.
\<close>

theorem order_locations_by_distance_contract:
  assumes "\<forall>p\<in>set locations. \<forall>q\<in>set locations. measurable fl p q"
  shows "\<exists>out. order_locations_by_distance fl locations = Inr out
           \<and> (locations = [] \<longrightarrow> out = [])
           \<and> (locations \<noteq> [] \<longrightarrow> hd out = hd locations)
           \<and> mset out = mset locations
           \<and> (\<forall>k. Suc k < length out \<longrightarrow>
                 first_nearest fl (out ! k) (unplaced locations (take (Suc k) out))
                   = Some (out ! Suc k))"
proof (cases locations)
  case Nil
  then show ?thesis by (simp add: order_locations_by_distance_def)
next
  case (Cons first rest)
  then have "last [first] \<in> set locations" "set rest \<subseteq> set locations" by auto
  from order_loop_greedy [OF assms this] obtain out where
    out: "order_loop fl [first] rest = Inr ([first] @ out)" "mset out = mset rest"
      "greedy_chain fl first rest out" by auto
  have "first_nearest fl ((first # out) ! k) (unplaced locations (take (Suc k) (first # out)))
          = Some ((first # out) ! Suc k)" if "Suc k < length (first # out)" for k
    using greedy_chain_nth [OF out(3), of k] that by (simp add: unplaced_def Cons)
  with out(1,2) Cons show ?thesis
    by (simp add: order_locations_by_distance_def)
qed

subsection \<open>The sample arithmetic\<close>

lemma abs_mult_le_half_squares: "\<bar>x * y\<bar> \<le> (x\<^sup>2 + y\<^sup>2) / (2::real)"
proof -
  have "0 \<le> (\<bar>x\<bar> - \<bar>y\<bar>)\<^sup>2" by simp
  then have "2 * (\<bar>x\<bar> * \<bar>y\<bar>) \<le> x\<^sup>2 + y\<^sup>2"
    by (simp add: power2_diff)
  then show ?thesis by (simp add: abs_mult)
qed

lemma sin_half_squared: "(sin (x / 2))\<^sup>2 = (1 - cos x) / (2::real)"
  using cos_double_sin [of "x / 2"] by simp

text \<open>In the reals the argument of the square root of the haversine formula lies between
  0 and 1, so that the unrounded arithmetic raises no domain error on finite coordinates.\<close>

lemma haversine_argument_range:
  fixes lat1 lat2 dlon :: real
  defines "a \<equiv> (sin ((lat2 - lat1) / 2))\<^sup>2 + cos lat1 * cos lat2 * (sin (dlon / 2))\<^sup>2"
  shows "0 \<le> a \<and> a \<le> 1"
proof -
  let ?u = "sin lat1 * sin lat2 + cos lat1 * cos lat2 * cos dlon"
  have h1: "(sin ((lat2 - lat1) / 2))\<^sup>2 = (1 - cos (lat2 - lat1)) / 2"
    by (rule sin_half_squared)
  have h2: "(sin (dlon / 2))\<^sup>2 = (1 - cos dlon) / 2"
    by (rule sin_half_squared)
  have a: "a = (1 - ?u) / 2"
    unfolding a_def h1 h2 by (simp add: cos_diff field_simps)
  have "\<bar>cos lat1 * cos lat2 * cos dlon\<bar> \<le> \<bar>cos lat1 * cos lat2\<bar>"
    by (simp add: abs_mult mult_left_le)
  moreover have "\<bar>sin lat1 * sin lat2\<bar> \<le> ((sin lat1)\<^sup>2 + (sin lat2)\<^sup>2) / 2"
    "\<bar>cos lat1 * cos lat2\<bar> \<le> ((cos lat1)\<^sup>2 + (cos lat2)\<^sup>2) / 2"
    by (rule abs_mult_le_half_squares)+
  moreover have "((sin lat1)\<^sup>2 + (sin lat2)\<^sup>2) / 2 + ((cos lat1)\<^sup>2 + (cos lat2)\<^sup>2) / 2 = 1"
  proof -
    have "(p + r) / 2 + (q + s) / 2 = 1" if "p + q = 1" "r + s = 1" for p q r s :: real
      using that by argo
    from this [OF sin_cos_squared_add [of lat1] sin_cos_squared_add [of lat2]]
    show ?thesis .
  qed
  ultimately have "\<bar>?u\<bar> \<le> 1" by linarith
  with a show ?thesis by (simp add: abs_le_iff)
qed


lemma math_radians_unrounded:
  "math_radians unrounded (JFloat (Finite x)) = Inr (Finite (x * pi / 180))"
  "math_radians unrounded (JInt i) = Inr (Finite (of_int i * pi / 180))"
  by (simp_all add: unrounded_def)

lemma haversine_distance_unrounded:
  assumes "math_radians unrounded a = Inr (Finite x1)" "math_radians unrounded b = Inr (Finite y1)"
    "math_radians unrounded c = Inr (Finite x2)" "math_radians unrounded e = Inr (Finite y2)"
  shows "haversine_distance unrounded a b c e =
           Inr (Finite (6371 * (2 * arcsin (sqrt ((sin ((x2 - x1) / 2))\<^sup>2
                  + cos x1 * cos x2 * (sin ((y2 - y1) / 2))\<^sup>2)))))"
proof -
  let ?a = "(sin ((x2 - x1) / 2))\<^sup>2 + cos x1 * cos x2 * (sin ((y2 - y1) / 2))\<^sup>2"
  from haversine_argument_range [of x2 x1 "y2 - y1"] have "0 \<le> ?a" "?a \<le> 1" by simp_all
  then have "0 \<le> ?a" "- 1 \<le> sqrt ?a" "sqrt ?a \<le> 1"
    by (simp_all add: order_trans [of "- 1" 0])
  with assms show ?thesis
    by (simp add: haversine_distance_def Let_def unrounded_def)
qed

lemma math_radians_unrounded_finite:
  "\<exists>x. math_radians unrounded (JFloat (Finite r)) = Inr (Finite x)"
  "\<exists>x. math_radians unrounded (JInt i) = Inr (Finite x)"
  using math_radians_unrounded by blast+

lemma sample_coordinates:
  assumes "p \<in> {eiffel_tower, berlin, kyiv, off_the_map}"
  shows "\<exists>a b x y. subscript p ''latitude'' = Inr a \<and> subscript p ''longitude'' = Inr b
           \<and> math_radians unrounded a = Inr (Finite x)
           \<and> math_radians unrounded b = Inr (Finite y)"
  using assms
  by (auto simp add: eiffel_tower_def berlin_def kyiv_def off_the_map_def
      math_radians_unrounded_finite simp del: math_radians.simps)

text \<open>Between the sample locations the unrounded arithmetic gives a distance.\<close>

lemma sample_measurable:
  assumes "p \<in> {eiffel_tower, berlin, kyiv, off_the_map}"
    "q \<in> {eiffel_tower, berlin, kyiv, off_the_map}"
  shows "measurable unrounded p q"
proof -
  from sample_coordinates [OF assms(1)] obtain a b x1 y1 where
    p: "subscript p ''latitude'' = Inr a" "subscript p ''longitude'' = Inr b"
      "math_radians unrounded a = Inr (Finite x1)" "math_radians unrounded b = Inr (Finite y1)"
    by blast
  from sample_coordinates [OF assms(2)] obtain c e x2 y2 where
    q: "subscript q ''latitude'' = Inr c" "subscript q ''longitude'' = Inr e"
      "math_radians unrounded c = Inr (Finite x2)" "math_radians unrounded e = Inr (Finite y2)"
    by blast
  from haversine_distance_unrounded [OF p(3,4) q(3,4)] p(1,2) q(1,2)
  show ?thesis by (simp add: measurable_def computed_distance_def)
qed

theorem order_locations_by_distance_witness:
  "\<exists>out. order_locations_by_distance unrounded [eiffel_tower, berlin, kyiv] = Inr out
      \<and> hd out = eiffel_tower
      \<and> mset out = mset [eiffel_tower, berlin, kyiv]
      \<and> first_nearest unrounded eiffel_tower [berlin, kyiv] = Some (out ! 1)"
proof -
  have "\<forall>p\<in>set [eiffel_tower, berlin, kyiv]. \<forall>q\<in>set [eiffel_tower, berlin, kyiv].
      measurable unrounded p q"
    by (auto intro: sample_measurable)
  from order_locations_by_distance_contract [OF this] obtain out where
    out: "order_locations_by_distance unrounded [eiffel_tower, berlin, kyiv] = Inr out"
      "hd out = eiffel_tower" "mset out = mset [eiffel_tower, berlin, kyiv]"
      "\<forall>k. Suc k < length out \<longrightarrow>
         first_nearest unrounded (out ! k)
           (unplaced [eiffel_tower, berlin, kyiv] (take (Suc k) out)) = Some (out ! Suc k)"
    by auto
  from out(3) have len: "length out = 3"
    using size_mset [of out] by simp
  then have "out \<noteq> []" by auto
  with out(2) have h: "out ! 0 = eiffel_tower" by (simp add: hd_conv_nth)
  from len have t: "take (Suc 0) out = [out ! 0]"
    by (simp add: take_Suc_conv_app_nth)
  from out(4) len have "first_nearest unrounded (out ! 0)
      (unplaced [eiffel_tower, berlin, kyiv] (take (Suc 0) out)) = Some (out ! Suc 0)"
    by simp
  then have "first_nearest unrounded eiffel_tower [berlin, kyiv] = Some (out ! 1)"
    unfolding t h by (simp add: unplaced_def)
  with out(1,2,3) show ?thesis by blast
qed

subsection \<open>The bounded-retry call\<close>

lemma exc_match_first_except_clause: "exc_match first_except_clause e = Inl TypeError"
  by (simp add: exc_match_def first_except_clause_def Timeout_def)

text \<open>What the call does, for every behaviour of the completion client: one request; the
  text when the first attempt returns one that is long enough, and otherwise the
  \<^verbatim>\<open>TypeError\<close> of the first \<^verbatim>\<open>except\<close> clause.\<close>

lemma get_completions_create_response_eq:
  "get_completions_create_response self api n =
     ([Create 0 (request_of self)],
      case api 0 of
        Completion result \<Rightarrow> if too_short n result then Inl TypeError else Inr (Some result)
      | Raises e \<Rightarrow> Inl TypeError)"
proof (cases "api 0")
  case (Completion result)
  then show ?thesis
    by (simp add: get_completions_create_response_def upt_max_retries request_of_def
        try_suite_def exc_match_first_except_clause)
next
  case (Raises e)
  then show ?thesis
    by (simp add: get_completions_create_response_def upt_max_retries request_of_def
        try_suite_def exc_match_first_except_clause)
qed

text \<open>
  Claim C2, at the input where the code departs from it. When the first attempt raises,
  whatever the exception, matching it against the first \<^verbatim>\<open>except\<close> clause raises a
  \<^verbatim>\<open>TypeError\<close>, because \<^verbatim>\<open>Timeout\<close> is no exception class: the call has sent one
  request, with the response format \<^verbatim>\<open>json_object\<close> at temperature 0.7, and it neither
  sleeps, nor makes a second attempt, nor returns \<^verbatim>\<open>None\<close>.
\<close>

theorem failed_attempt_raises:
  assumes "api 0 = Raises e"
  shows "get_completions_create_response self api n
           = ([Create 0 (request_of self)], Inl TypeError)
    \<and> response_format (request_of self) = ''json_object''
    \<and> temperature (request_of self) = 7 / 10"
  using assms by (simp add: get_completions_create_response_eq request_of_def)

theorem failed_attempt_witness:
  "get_completions_create_response sample_client (\<lambda>k. Raises RateLimitError) (Some 3)
     = ([Create 0 (request_of sample_client)], Inl TypeError)
   \<and> get_completions_create_response sample_client (\<lambda>k. Raises ChatGPTError) (Some 3)
     = ([Create 0 (request_of sample_client)], Inl TypeError)"
  using failed_attempt_raises [where api = "\<lambda>k. Raises RateLimitError" and e = RateLimitError
      and self = sample_client and n = "Some 3"]
    failed_attempt_raises [where api = "\<lambda>k. Raises ChatGPTError" and e = ChatGPTError
      and self = sample_client and n = "Some 3"]
  by simp

text \<open>
  Claim C4, at the input where the code departs from it. When the first attempt returns a
  text shorter than the hint, the call neither sleeps nor retries: reading the unassigned
  \<^verbatim>\<open>wait_time\<close> raises \<^verbatim>\<open>UnboundLocalError\<close> inside the \<^verbatim>\<open>try\<close> suite, matching it
  against the first \<^verbatim>\<open>except\<close> clause raises a \<^verbatim>\<open>TypeError\<close>, and that error leaves the
  function after the one request.
\<close>

theorem short_first_response_raises:
  assumes "api 0 = Completion reply" "too_short n reply"
  shows "get_completions_create_response self api n =
           ([Create 0 (request_of self)], Inl TypeError)"
  using assms by (simp add: get_completions_create_response_eq)

theorem short_first_response_witness:
  "too_short (Some 3) ''{}'' \<and>
   get_completions_create_response sample_client (\<lambda>k. Completion ''{}'') (Some 3) =
     ([Create 0 (request_of sample_client)], Inl TypeError)"
  using short_first_response_raises [where api = "\<lambda>k. Completion ''{}''" and reply = "''{}''"
      and n = "Some 3" and self = sample_client]
  by (simp add: too_short_def)

text \<open>
  Claim C3, at the inputs where the code departs from it, which are all of them. The three
  user messages are appended and the last two are removed again, but the bounded-retry
  function is called without its required argument: the call raises a \<^verbatim>\<open>TypeError\<close>, no
  request is made and no location list is returned.
\<close>

theorem exclusion_prediction_raises:
  "get_exlude_locations_prediction str_of loads api self previous_trip exclude_text =
     ([], Inl TypeError,
      self\<lparr>messages := messages self @
        [\<lparr>role = ''user'',
          content = ''Previous generated trip was: '' @ str_of (t_response_json previous_trip)\<rparr>]\<rparr>)"
  by (simp add: get_exlude_locations_prediction_def call_get_completions_create_response_def
      finally_get_exlude_locations_prediction_def add_message_def pop_def
      except_ChatGPTError_def Let_def butlast_append)

subsection \<open>A failing completion client\<close>

lemma get_trip_prediction_failed:
  assumes "api 0 = Raises e"
  shows "fst (snd (get_trip_prediction loads api self trip trip_type)) = Inl TypeError"
  using assms
  by (simp add: get_trip_prediction_def call_get_completions_create_response_def Let_def
      get_completions_create_response_eq except_ChatGPTError_def)

text \<open>
  Claim C7, at the input where the code departs from it. When the completion request
  fails, \<^verbatim>\<open>create_trip\<close> ends with the uncaught \<^verbatim>\<open>TypeError\<close> of the first \<^verbatim>\<open>except\<close>
  clause, not with the HTTP error 400 "No locations generated" that an empty prediction
  gives. The bounded-retry call returns \<^verbatim>\<open>None\<close> for no behaviour of the completion
  client; and a \<^verbatim>\<open>None\<close> given to \<^verbatim>\<open>parse_response\<close> would be a \<^verbatim>\<open>TypeError\<close> of
  \<^verbatim>\<open>json.loads\<close> as well, not an empty result.
\<close>

theorem failed_client_raises:
  assumes "api 0 = Raises e"
  shows "create_trip env api request_id new_id trip_data trip_type = Inl TypeError
    \<and> snd (get_completions_create_response self api' n) \<noteq> Inr None
    \<and> parse_response loads None = Inl TypeError
    \<and> assemble_trip (floats env) (pydantic env) request_id None (enum_value trip_type) new_id
          (JArr [])
        = Inl (HTTPException 400 No_locations_generated)"
proof -
  obtain evs r c where run: "get_trip_prediction (json_loads env) api
      (OpenAIChatClientTrip (env_prompts env) (openai_model env) (enum_value trip_type))
      trip_data trip_type = (evs, r, c)"
    by (rule prod_cases3)
  with assms get_trip_prediction_failed [where api = api and e = e and loads = "json_loads env"
      and self = "OpenAIChatClientTrip (env_prompts env) (openai_model env) (enum_value trip_type)"
      and trip = trip_data and trip_type = trip_type]
  have "r = Inl TypeError" by simp
  with run have "create_trip env api request_id new_id trip_data trip_type = Inl TypeError"
    by (simp add: create_trip_def)
  moreover have "snd (get_completions_create_response self api' n) \<noteq> Inr None"
    by (simp add: get_completions_create_response_eq split: api_outcome.splits)
  moreover have "parse_response loads None = Inl TypeError"
    by (simp add: parse_response_def)
  moreover have "assemble_trip (floats env) (pydantic env) request_id None (enum_value trip_type)
      new_id (JArr []) = Inl (HTTPException 400 No_locations_generated)"
    by (simp add: assemble_trip_def validate_prediction_locations_def)
  ultimately show ?thesis by simp
qed

theorem failed_client_witness:
  "create_trip sample_env (\<lambda>k. Raises RateLimitError) 11 5 sample_request by_place
     = Inl TypeError"
  using failed_client_raises [where api = "\<lambda>k. Raises RateLimitError" and e = RateLimitError
      and env = sample_env and request_id = 11 and new_id = 5 and trip_data = sample_request
      and trip_type = by_place]
  by simp

subsection \<open>Parsing and validation\<close>

lemma py_len_0_py_not: "py_len v = Inr 0 \<Longrightarrow> py_not v"
  by (cases v) simp_all

text \<open>
  Claim C6, amended. A raw payload that is not valid JSON, and a payload whose parsed
  location value has length zero, both fail validation with the same HTTP error 400 "No
  locations generated": the code has no separate parse error.
\<close>

theorem validate_unparsable_or_empty:
  "(loads raw = None \<longrightarrow>
      validate fl loads co raw = Inl (HTTPException 400 No_locations_generated))
   \<and> (parse_response loads (Some raw) = Inr locations \<and> py_len locations = Inr 0 \<longrightarrow>
      validate fl loads co raw = Inl (HTTPException 400 No_locations_generated))"
  by (auto simp: validate_def parse_response_def validate_prediction_locations_def
      dest: py_len_0_py_not)

theorem validate_unparsable_or_empty_witness:
  "sample_loads ''oops'' = None
   \<and> validate unrounded sample_loads sample_coercion ''oops'' = Inl (HTTPException 400 No_locations_generated)
   \<and> parse_response sample_loads (Some ''[]'') = Inr (JArr [])
   \<and> validate unrounded sample_loads sample_coercion ''[]'' = Inl (HTTPException 400 No_locations_generated)"
proof -
  have 1: "sample_loads ''oops'' = None" by (simp add: sample_loads_def)
  have 2: "parse_response sample_loads (Some ''[]'') = Inr (JArr [])"
    by (simp add: parse_response_def sample_loads_def)
  have 3: "py_len (JArr []) = Inr 0" by simp
  from validate_unparsable_or_empty [where fl = unrounded and loads = sample_loads
      and raw = "''oops''" and co = sample_coercion] 1
    validate_unparsable_or_empty [where fl = unrounded and loads = sample_loads
      and raw = "''[]''" and locations = "JArr []" and co = sample_coercion] 2 3
  show ?thesis by blast
qed

text \<open>Against claim C6 as stated: the text \<^verbatim>\<open>oops\<close> is no JSON, the text \<^verbatim>\<open>[]\<close>
  decodes to the empty list, and validation fails on both in the same way.\<close>

theorem unparsable_not_distinguished:
  "sample_loads ''oops'' = None \<and> sample_loads ''[]'' = Some (JArr [])
   \<and> validate unrounded sample_loads sample_coercion ''oops'' = validate unrounded sample_loads sample_coercion ''[]''"
  by (simp add: sample_loads_def validate_def parse_response_def
      validate_prediction_locations_def)

text \<open>
  Claim C8. For every list \<open>L\<close>, a payload that decodes to an object holding \<open>L\<close> under
  the key \<^verbatim>\<open>locations\<close> and a payload that decodes to \<open>L\<close> itself are both parsed to
  \<open>L\<close>; and when \<open>L\<close> has exactly one element, a location object (a dict that has no
  key \<^verbatim>\<open>locations\<close>), the payload that decodes to that object alone is parsed to \<open>L\<close>
  too.
\<close>

theorem parse_response_shapes:
  assumes "loads wrapped = Some (JObj kvs)" "map_of kvs ''locations'' = Some (JArr L)"
    and "loads bare = Some (JArr L)"
  shows "parse_response loads (Some wrapped) = Inr (JArr L)
    \<and> parse_response loads (Some bare) = Inr (JArr L)
    \<and> (loads single = Some obj \<and> is_dict obj \<and> \<not> has_key ''locations'' obj \<and> L = [obj] \<longrightarrow>
         parse_response loads (Some single) = Inr (JArr L))"
  using assms by (auto simp: parse_response_def Let_def)

theorem parse_response_shapes_witness:
  "parse_response sample_loads (Some (''{'' @ [CHR 0x22] @ ''locations'' @ [CHR 0x22] @ '':[{}]}''))
     = Inr (JArr [JObj []])
   \<and> parse_response sample_loads (Some ''[{}]'') = Inr (JArr [JObj []])
   \<and> parse_response sample_loads (Some ''{}'') = Inr (JArr [JObj []])"
proof -
  let ?w = "''{'' @ [CHR 0x22] @ ''locations'' @ [CHR 0x22] @ '':[{}]}''"
  have "sample_loads ?w = Some (JObj [(''locations'', JArr [JObj []])])"
    "map_of [(''locations'', JArr [JObj []])] ''locations'' = Some (JArr [JObj []])"
    "sample_loads ''[{}]'' = Some (JArr [JObj []])"
    "sample_loads ''{}'' = Some (JObj [])"
    by (simp_all add: sample_loads_def)
  from parse_response_shapes [OF this(1,2,3), where single = "''{}''" and obj = "JObj []"] this(4)
  show ?thesis by simp
qed

subsection \<open>Atomic validation\<close>

lemma order_loop_mset:
  "order_loop fl ordered remaining = Inr out \<Longrightarrow> mset out = mset ordered + mset remaining"
proof (induction fl ordered remaining rule: order_loop.induct)
  case (1 fl ordered remaining)
  show ?case
  proof (cases "remaining = []")
    case True
    with "1.prems" show ?thesis by (simp add: order_loop.simps [of fl ordered "[]"])
  next
    case False
    from "1.prems" False obtain c rest where c: "closest fl (last ordered) remaining = Inr c"
      and r: "list_remove c remaining = Inr rest"
      and o: "order_loop fl (ordered @ [c]) rest = Inr out"
      by (subst (asm) order_loop.simps) (auto split: sum.splits)
    from r have "c \<in> set remaining" "rest = remove1 c remaining"
      by (auto simp: list_remove_def split: if_splits)
    with "1.IH" [OF False c r o] show ?thesis by simp
  qed
qed

lemma order_locations_by_distance_mset:
  "order_locations_by_distance fl xs = Inr out \<Longrightarrow> mset out = mset xs"
  by (cases xs) (auto simp: order_locations_by_distance_def dest: order_loop_mset)

lemma LocationCreate_errors:
  "LocationCreate co tid l = Inl e \<Longrightarrow> e = ValidationError \<or> e = TypeError"
  unfolding LocationCreate_def
  by (cases l) (simp_all split: if_splits option.splits)

lemma LocationCreate_TypeError:
  "LocationCreate co tid l = Inl TypeError \<longleftrightarrow> \<not> (is_dict l \<and> \<not> has_key ''trip_id'' l)"
  unfolding LocationCreate_def
  by (cases l) (simp_all split: if_splits option.splits)

lemma promote_all_fails:
  assumes "\<exists>l\<in>set ls. LocationCreate co None l = Inl ValidationError"
    "\<forall>l\<in>set ls. is_dict l \<and> \<not> has_key ''trip_id'' l"
  shows "promote_all co ls = Inl ValidationError"
  using assms
proof (induction ls)
  case Nil
  then show ?case by simp
next
  case (Cons l ls)
  show ?case
  proof (cases "LocationCreate co None l")
    case (Inl e)
    with Cons.prems(2) LocationCreate_errors [OF Inl] LocationCreate_TypeError [of co None l]
    have "e = ValidationError" by auto
    with Inl show ?thesis by simp
  next
    case (Inr loc)
    with Cons.prems have "\<exists>l\<in>set ls. LocationCreate co None l = Inl ValidationError" by auto
    with Cons.IH Cons.prems(2) have "promote_all co ls = Inl ValidationError" by simp
    with Inr show ?thesis by simp
  qed
qed

lemma promote_all_length: "promote_all co ls = Inr locs \<Longrightarrow> length locs = length ls"
proof (induction ls arbitrary: locs)
  case Nil
  then show ?case by simp
next
  case (Cons l ls)
  then show ?case
    by (cases "LocationCreate co None l"; cases "promote_all co ls") auto
qed

text \<open>
  Claim C5, amended. For every input list on which the ordering step succeeds and whose
  records are all dicts without a key \<^verbatim>\<open>trip_id\<close>: if any record fails promotion, the
  whole batch fails with the HTTP error 400 "Invalid location data", which carries the
  first element of the input list, whether or not that is the offending one; no record is
  accepted.
\<close>

theorem validation_batch_atomic:
  assumes "order_locations_by_distance fl xs = Inr ordered"
    and "\<forall>l\<in>set xs. is_dict l \<and> \<not> has_key ''trip_id'' l"
    and "\<exists>l\<in>set xs. LocationCreate co None l = Inl ValidationError"
  shows "validate_prediction_locations fl co (JArr xs)
           = Inl (HTTPException 400 (Invalid_location_data (hd xs)))"
proof -
  from assms(1) have "mset ordered = mset xs" by (rule order_locations_by_distance_mset)
  then have "set ordered = set xs" by (rule mset_eq_setD)
  with assms(2,3) have "promote_all co ordered = Inl ValidationError"
    by (intro promote_all_fails) simp_all
  moreover from assms(3) have "xs \<noteq> []" by auto
  ultimately show ?thesis
    using assms(1) by (simp add: validate_prediction_locations_def)
qed

lemma order_two:
  "measurable fl a b \<Longrightarrow> order_locations_by_distance fl [a, b] = Inr [a, b]"
  using closest_first_nearest [of b "[]" fl a]
  by (simp add: order_locations_by_distance_def order_loop.simps [of _ _ "[b]"]
      order_loop.simps [of _ _ "[]"] list_remove_def)

theorem validation_batch_atomic_witness:
  "validate_prediction_locations unrounded sample_coercion (JArr [eiffel_tower, off_the_map])
     = Inl (HTTPException 400 (Invalid_location_data eiffel_tower))"
proof -
  have "measurable unrounded eiffel_tower off_the_map"
    by (rule sample_measurable) simp_all
  then have o: "order_locations_by_distance unrounded [eiffel_tower, off_the_map]
      = Inr [eiffel_tower, off_the_map]" by (rule order_two)
  have d: "\<forall>l\<in>set [eiffel_tower, off_the_map]. is_dict l \<and> \<not> has_key ''trip_id'' l"
    by (simp add: eiffel_tower_def off_the_map_def)
  have "LocationCreate sample_coercion None off_the_map = Inl ValidationError"
    by (simp add: LocationCreate_def off_the_map_def sample_coercion_def req_str_def
        req_float_def opt_str_def opt_int_def float_le_def)
  then have f: "\<exists>l\<in>set [eiffel_tower, off_the_map].
      LocationCreate sample_coercion None l = Inl ValidationError" by simp
  from validation_batch_atomic [OF o d f] show ?thesis by simp
qed

text \<open>Against claim C5 as stated: in a batch of a valid record followed by one with
  latitude 200, the error carries the valid first record, not the offending one.\<close>

theorem first_offending_not_carried:
  "(\<exists>l. LocationCreate sample_coercion None eiffel_tower = Inr l)
   \<and> LocationCreate sample_coercion None off_the_map = Inl ValidationError
   \<and> validate_prediction_locations unrounded sample_coercion (JArr [eiffel_tower, off_the_map])
       = Inl (HTTPException 400 (Invalid_location_data eiffel_tower))
   \<and> eiffel_tower \<noteq> off_the_map"
proof -
  have 1: "\<exists>l. LocationCreate sample_coercion None eiffel_tower = Inr l"
    by (simp add: LocationCreate_def eiffel_tower_def sample_coercion_def req_str_def
        req_float_def opt_str_def opt_int_def float_le_def)
  have 2: "LocationCreate sample_coercion None off_the_map = Inl ValidationError"
    by (simp add: LocationCreate_def off_the_map_def sample_coercion_def req_str_def
        req_float_def opt_str_def opt_int_def float_le_def)
  have "measurable unrounded eiffel_tower off_the_map"
    by (rule sample_measurable) simp_all
  then have "order_locations_by_distance unrounded [eiffel_tower, off_the_map]
      = Inr [eiffel_tower, off_the_map]" by (rule order_two)
  with 1 2 have 3: "validate_prediction_locations unrounded sample_coercion
      (JArr [eiffel_tower, off_the_map])
       = Inl (HTTPException 400 (Invalid_location_data eiffel_tower))"
    by (auto simp add: validate_prediction_locations_def)
  have 4: "eiffel_tower \<noteq> off_the_map" by (simp add: eiffel_tower_def off_the_map_def)
  from 1 2 3 4 show ?thesis by blast
qed

subsection \<open>The counts of an assembled trip\<close>

lemma items_py_len: "items p = Inr xs \<Longrightarrow> py_len p = Inr (length xs)"
  by (cases p) auto

lemma validate_prediction_locations_length:
  assumes "validate_prediction_locations fl co p = Inr locs"
  shows "py_len p = Inr (length locs)"
proof -
  from assms obtain xs ordered where xs: "items p = Inr xs"
    and o: "order_locations_by_distance fl xs = Inr ordered"
    and pr: "promote_all co ordered = Inr locs"
    by (cases "items p"; cases "order_locations_by_distance fl (projr (items p))")
       (auto simp: validate_prediction_locations_def split: if_splits sum.splits)
  from o have "mset ordered = mset xs" by (rule order_locations_by_distance_mset)
  then have "length ordered = length xs" by (rule mset_eq_length)
  with promote_all_length [OF pr] items_py_len [OF xs] show ?thesis by simp
qed

lemma create_locations_for_trip_length:
  "create_locations_for_trip tid ls = Inr rows \<Longrightarrow> length rows = length ls"
  by (auto simp: create_locations_for_trip_def split: if_splits)

lemma assemble_trip_counts:
  assumes "assemble_trip fl co request_id parent_id trip_type new_id prediction = Inr t"
  shows "counts_agree t \<and> t_parent_id t = parent_id \<and> t_response_json t = prediction"
proof -
  from assms obtain locs where v: "validate_prediction_locations fl co prediction = Inr locs"
    by (cases "validate_prediction_locations fl co prediction") (auto simp: assemble_trip_def)
  then have len: "py_len prediction = Inr (length locs)"
    by (rule validate_prediction_locations_length)
  from assms v len obtain tc where tc: "TripCreate (Some request_id) parent_id prediction
      (Some (int (length locs))) trip_type = Inr tc"
    by (cases "TripCreate (Some request_id) parent_id prediction
      (Some (int (length locs))) trip_type") (auto simp: assemble_trip_def)
  from assms v len tc obtain rows where rows:
    "create_locations_for_trip new_id locs = Inr rows"
    and t: "t = (TripService_create_trip new_id tc)\<lparr>t_locations := rows\<rparr>"
    by (cases "create_locations_for_trip new_id locs")
       (auto simp: assemble_trip_def Let_def TripService_create_trip_def)
  from tc have "tc_num_places tc = Some (int (length locs))" "tc_parent_id tc = parent_id"
    "tc_response_json tc = prediction"
    by (auto simp: TripCreate_def split: if_splits option.splits)
  with t len create_locations_for_trip_length [OF rows] show ?thesis
    by (simp add: counts_agree_def TripService_create_trip_def)
qed

text \<open>
  Claim C9. Every trip that the pipeline assembles from a prediction, with no parent (a
  fresh trip) or with the previous trip as parent (an exclusion refinement), has a place
  count equal to the number of its stored locations and to the length of its stored
  payload, which is the prediction itself; so has every trip that \<^verbatim>\<open>create_trip\<close>
  returns, and its parent is \<^verbatim>\<open>None\<close>.
\<close>

theorem assembled_trip_counts:
  "(assemble_trip fl co request_id parent_id trip_type new_id prediction = Inr t \<longrightarrow>
      counts_agree t \<and> t_parent_id t = parent_id \<and> t_response_json t = prediction)
   \<and> (create_trip env api request_id' new_id' trip_data tt = Inr t' \<longrightarrow>
      counts_agree t' \<and> t_parent_id t' = None)"
proof -
  have "counts_agree t' \<and> t_parent_id t' = None"
    if c: "create_trip env api request_id' new_id' trip_data tt = Inr t'"
  proof -
    obtain evs r cl where run: "get_trip_prediction (json_loads env) api
        (OpenAIChatClientTrip (env_prompts env) (openai_model env) (enum_value tt))
        trip_data tt = (evs, r, cl)"
      by (rule prod_cases3)
    with c obtain p where "assemble_trip (floats env) (pydantic env) request_id' None (enum_value tt)
        new_id' p = Inr t'"
      by (cases r) (auto simp: create_trip_def)
    from assemble_trip_counts [OF this] show ?thesis by simp
  qed
  with assemble_trip_counts show ?thesis by blast
qed

lemma promote_two:
  "promote_all sample_coercion [eiffel_tower, berlin] =
     Inr [\<lparr>l_trip_id = None, l_name = ''Eiffel Tower'', l_description = None,
           l_latitude = Finite 48.8584, l_longitude = Finite 2.2945, l_address = None,
           l_city = Some ''Paris'', l_country = None, l_order = None\<rparr>,
          \<lparr>l_trip_id = None, l_name = ''Berlin'', l_description = None,
           l_latitude = Finite 52.52, l_longitude = Finite 13.405, l_address = None,
           l_city = Some ''Berlin'', l_country = None, l_order = None\<rparr>]"
  by (simp add: LocationCreate_def eiffel_tower_def berlin_def sample_coercion_def req_str_def
      req_float_def opt_str_def opt_int_def float_le_def)

theorem assembled_trip_counts_witness:
  "\<exists>t. assemble_trip unrounded sample_coercion 11 (Some 5) ''by_place'' 6
         (JArr [eiffel_tower, berlin]) = Inr t
      \<and> t_num_places t = Some 2 \<and> length (t_locations t) = 2
      \<and> py_len (t_response_json t) = Inr 2 \<and> t_parent_id t = Some 5"
proof -
  have "measurable unrounded eiffel_tower berlin"
    by (rule sample_measurable) simp_all
  then have "order_locations_by_distance unrounded [eiffel_tower, berlin]
      = Inr [eiffel_tower, berlin]"
    by (rule order_two)
  with promote_two have "\<exists>locs. validate_prediction_locations unrounded sample_coercion
      (JArr [eiffel_tower, berlin]) = Inr locs \<and> length locs = 2"
    by (simp add: validate_prediction_locations_def)
  then obtain t where t: "assemble_trip unrounded sample_coercion 11 (Some 5) ''by_place'' 6
      (JArr [eiffel_tower, berlin]) = Inr t"
    by (auto simp: assemble_trip_def TripCreate_def create_locations_for_trip_def Let_def
        TripService_create_trip_def eiffel_tower_def berlin_def)
  from assembled_trip_counts [where t = t and co = sample_coercion] t
  have "counts_agree t" "t_parent_id t = Some 5"
    "t_response_json t = JArr [eiffel_tower, berlin]" by blast+
  with t show ?thesis by (auto simp: counts_agree_def)
qed

subsection \<open>The conversation state\<close>

lemma get_trip_prediction_client:
  "\<exists>text. snd (snd (get_trip_prediction loads api self trip trip_type)) =
     finally_get_trip_prediction (add_message ''user'' text self)"
  by (auto simp: get_trip_prediction_def Let_def split: prod.splits)

lemma get_exlude_locations_prediction_client:
  "\<exists>a b c. snd (snd (get_exlude_locations_prediction str_of loads api self previous_trip
       exclude_text)) =
     finally_get_exlude_locations_prediction
       (add_message ''user'' c (add_message ''user'' b (add_message ''user'' a self)))"
  by (auto simp: get_exlude_locations_prediction_def Let_def split: prod.splits)

lemma finally_get_trip_prediction_keeps:
  assumes "messages self \<noteq> []"
  shows "messages (finally_get_trip_prediction self) \<noteq> [] \<and>
         hd (messages (finally_get_trip_prediction self)) = hd (messages self)"
proof (cases "length (messages self) > 1")
  case True
  then have "butlast (messages self) \<noteq> []"
    by (cases "messages self" rule: rev_cases) auto
  moreover from True have "hd (butlast (messages self)) = hd (messages self)"
    by (cases "messages self" rule: rev_cases) auto
  ultimately show ?thesis using True by (simp add: finally_get_trip_prediction_def pop_def)
next
  case False
  with assms show ?thesis by (simp add: finally_get_trip_prediction_def)
qed

lemma finally_get_exlude_locations_prediction_keeps:
  assumes "messages self \<noteq> []"
  shows "messages (finally_get_exlude_locations_prediction self) \<noteq> [] \<and>
         hd (messages (finally_get_exlude_locations_prediction self)) = hd (messages self)"
proof (cases "length (messages self) > 2")
  case True
  then obtain ms' b where 1: "messages self = ms' @ [b]"
    by (cases "messages self" rule: rev_cases) auto
  with True obtain ms a where 2: "ms' = ms @ [a]"
    by (cases ms' rule: rev_cases) auto
  from True 1 2 have "messages self = ms @ [a, b]" "ms \<noteq> []" by auto
  then show ?thesis
    using True by (simp add: finally_get_exlude_locations_prediction_def pop_def butlast_append)
next
  case False
  with assms show ?thesis by (simp add: finally_get_exlude_locations_prediction_def)
qed

lemma add_message_keeps:
  "messages self \<noteq> [] \<Longrightarrow>
   messages (add_message r c self) \<noteq> [] \<and> hd (messages (add_message r c self)) = hd (messages self)"
  by (simp add: add_message_def)

lemma after_call_keeps:
  assumes "messages self \<noteq> []"
  shows "messages (after_call str_of loads self c) \<noteq> [] \<and>
         hd (messages (after_call str_of loads self c)) = hd (messages self)"
proof (cases c)
  case (Trip_prediction api trip trip_type)
  obtain m where "after_call str_of loads self c =
      finally_get_trip_prediction (add_message ''user'' m self)"
    using get_trip_prediction_client [of loads api self trip trip_type] Trip_prediction by auto
  with assms show ?thesis
    using finally_get_trip_prediction_keeps [of "add_message ''user'' m self"]
      add_message_keeps [of self "''user''" m] by simp
next
  case (Exclude_prediction api previous_trip exclude_text)
  obtain x y z where "after_call str_of loads self c =
      finally_get_exlude_locations_prediction
        (add_message ''user'' z (add_message ''user'' y (add_message ''user'' x self)))"
    using get_exlude_locations_prediction_client [of str_of loads api self previous_trip
        exclude_text] Exclude_prediction by auto
  with assms show ?thesis
    using finally_get_exlude_locations_prediction_keeps
        [of "add_message ''user'' z (add_message ''user'' y (add_message ''user'' x self))"]
      add_message_keeps [of self "''user''" x]
      add_message_keeps [of "add_message ''user'' x self" "''user''" y]
      add_message_keeps [of "add_message ''user'' y (add_message ''user'' x self)" "''user''" z]
    by simp
qed

lemma foldl_after_call_keeps:
  "messages self \<noteq> [] \<Longrightarrow>
   messages (foldl (after_call str_of loads) self calls) \<noteq> [] \<and>
   hd (messages (foldl (after_call str_of loads) self calls)) = hd (messages self)"
proof (induction calls arbitrary: self)
  case Nil
  then show ?case by simp
next
  case (Cons c calls)
  from after_call_keeps [OF Cons.prems, of str_of loads c]
  have "messages (after_call str_of loads self c) \<noteq> []"
    "hd (messages (after_call str_of loads self c)) = hd (messages self)" by simp_all
  with Cons.IH [of "after_call str_of loads self c"] show ?case by simp
qed

text \<open>
  Claim C10. On one client, after any sequence of calls of \<^verbatim>\<open>get_trip_prediction\<close> and
  \<^verbatim>\<open>get_exlude_locations_prediction\<close>, whatever the completion client answers or raises
  during them, the message list is not empty and its first element is still the system
  message with the prompt chosen at construction. The two guarded pops of the
  \<^verbatim>\<open>finally\<close> blocks, run on any client with a message, leave the list non-empty and
  its first element in place.
\<close>

theorem system_message_kept:
  "messages (foldl (after_call str_of loads) (OpenAIChatClientTrip ps mdl trip_type) calls) \<noteq> []
   \<and> hd (messages (foldl (after_call str_of loads) (OpenAIChatClientTrip ps mdl trip_type) calls))
       = \<lparr>role = ''system'',
          content = (case TRIP_TYPE ps trip_type of
                       Some p \<Rightarrow> p
                     | None \<Rightarrow> TRIP_PROMPT_SEVERAL_PLACES ps)\<rparr>
   \<and> (messages self \<noteq> [] \<longrightarrow>
        messages (finally_get_trip_prediction self) \<noteq> []
        \<and> hd (messages (finally_get_trip_prediction self)) = hd (messages self)
        \<and> messages (finally_get_exlude_locations_prediction self) \<noteq> []
        \<and> hd (messages (finally_get_exlude_locations_prediction self)) = hd (messages self))"
proof -
  let ?c = "OpenAIChatClientTrip ps mdl trip_type"
  have init: "messages ?c = [\<lparr>role = ''system'',
          content = (case TRIP_TYPE ps trip_type of
                       Some p \<Rightarrow> p
                     | None \<Rightarrow> TRIP_PROMPT_SEVERAL_PLACES ps)\<rparr>]"
    by (simp add: OpenAIChatClientTrip_def OpenAIChatClientBase_def add_message_def Let_def)
  then have "messages ?c \<noteq> []" by simp
  from foldl_after_call_keeps [OF this, of str_of loads calls] init
  show ?thesis
    using finally_get_trip_prediction_keeps [of self]
      finally_get_exlude_locations_prediction_keeps [of self] by simp
qed

theorem system_message_kept_witness:
  "hd (messages (foldl (after_call (py_str sample_env) sample_loads) sample_client
         [Trip_prediction (\<lambda>k. Raises RateLimitError) sample_request by_place,
          Exclude_prediction (\<lambda>k. Completion ''[]'') sample_trip ''Exclude Eiffel Tower'',
          Trip_prediction (\<lambda>k. Completion ''[{}]'') sample_request by_place]))
     = \<lparr>role = ''system'', content = TRIP_PROMPT_SINGLE_PLACE sample_prompts\<rparr>
   \<and> messages (finally_get_trip_prediction sample_client) = messages sample_client"
proof -
  have "TRIP_TYPE sample_prompts ''by_place'' = Some (TRIP_PROMPT_SINGLE_PLACE sample_prompts)"
    by (simp add: TRIP_TYPE_def)
  moreover have "messages (finally_get_trip_prediction sample_client) = messages sample_client"
    by (simp add: finally_get_trip_prediction_def sample_client_def OpenAIChatClientTrip_def
        OpenAIChatClientBase_def add_message_def Let_def)
  ultimately show ?thesis
    using system_message_kept [where str_of = "py_str sample_env" and loads = sample_loads
        and ps = sample_prompts and mdl = "''gpt-3.5-turbo-1106''" and trip_type = "''by_place''"
        and calls = "[Trip_prediction (\<lambda>k. Raises RateLimitError) sample_request by_place,
          Exclude_prediction (\<lambda>k. Completion ''[]'') sample_trip ''Exclude Eiffel Tower'',
          Trip_prediction (\<lambda>k. Completion ''[{}]'') sample_request by_place]"]
    by (simp add: sample_client_def)
qed

end
